theory Spec2Isabelle
  imports Main "HOL-Library.Option_ord" "HOL-Library.Product_Lexorder"
begin

section \<open>Data model\<close>

text \<open>
  The task table of \<^verbatim>\<open>_structure.sql\<close> and the five stored procedures that are its
  only read and write path. A \<^verbatim>\<open>DATE\<close> is a day number, a \<^verbatim>\<open>DATETIME2\<close> a count of
  seconds since the same epoch; \<^verbatim>\<open>NULL\<close> is \<open>None\<close>. The \<^verbatim>\<open>INTEGER\<close> parameters are
  never \<^verbatim>\<open>NULL\<close>, as the request types of \<^verbatim>\<open>taskTypes.ts\<close> have them. A string passed
  for a parameter declared \<^verbatim>\<open>NVARCHAR(n)\<close> is cut to its first \<open>n\<close> characters before the
  body of the procedure runs, so what the body writes fits the columns, the statements
  between \<^verbatim>\<open>BEGIN TRAN\<close> and \<^verbatim>\<open>COMMIT TRAN\<close> cannot fail and the \<^verbatim>\<open>CATCH\<close> branch is
  never taken.
\<close>

type_synonym date = int
type_synonym datetime2 = int

text \<open>The eight columns that \<^verbatim>\<open>spTaskGet\<close> and \<^verbatim>\<open>spTaskList\<close> select
  (\<^verbatim>\<open>TaskEntity\<close> in \<^verbatim>\<open>taskTypes.ts\<close>).\<close>

record TaskEntity =
  idTask :: int
  title :: string
  description :: "string option"
  dueDate :: "date option"
  priority :: int
  status :: int
  dateCreated :: datetime2
  dateModified :: datetime2

text \<open>A row of \<^verbatim>\<open>[functional].[task]\<close>: the selected columns, the tenancy columns and
  the soft-delete flag.\<close>

record task = TaskEntity +
  idAccount :: int
  idUser :: int
  deleted :: bool

text \<open>
  The database: the \<^verbatim>\<open>idAccount\<close> column of \<^verbatim>\<open>[subscription].[account]\<close>, the
  \<^verbatim>\<open>(idUser, idAccount)\<close> columns of \<^verbatim>\<open>[security].[user]\<close>, the task rows in insertion
  order, and the next value of the \<^verbatim>\<open>IDENTITY(1, 1)\<close> column.
\<close>

record db =
  accounts :: "int list"
  users :: "(int \<times> int) list"
  tasks :: "task list"
  ident :: int

text \<open>The messages of \<^verbatim>\<open>THROW 51000\<close>.\<close>

datatype error =
    titleRequired
  | titleTooShort
  | titleTooLong
  | descriptionTooLong
  | dueDateInPast
  | invalidPriority
  | invalidStatus
  | accountDoesntExist
  | userDoesntExist
  | taskDoesntExist

section \<open>The built-in functions the procedures call\<close>

text \<open>
  \<^verbatim>\<open>LTRIM\<close> and \<^verbatim>\<open>RTRIM\<close> remove the space character (code 32) and no other
  character; \<^verbatim>\<open>LEN\<close> does not count trailing spaces; string equality ignores trailing
  spaces; \<^verbatim>\<open>CAST(... AS DATE)\<close> drops the time of day.
\<close>

definition LTRIM :: "string \<Rightarrow> string" where
  "LTRIM s = dropWhile (\<lambda>c. c = CHR '' '') s"

definition RTRIM :: "string \<Rightarrow> string" where
  "RTRIM s = rev (dropWhile (\<lambda>c. c = CHR '' '') (rev s))"

definition LEN :: "string \<Rightarrow> int" where
  "LEN s = int (length (RTRIM s))"

definition str_eq :: "string \<Rightarrow> string \<Rightarrow> bool" where
  "str_eq a b = (RTRIM a = RTRIM b)"

definition CAST_AS_DATE :: "datetime2 \<Rightarrow> date" where
  "CAST_AS_DATE t = t div 86400"

text \<open>The value of a parameter declared \<^verbatim>\<open>NVARCHAR(n)\<close>: the argument cut to its first
  \<open>n\<close> characters, without any error; \<^verbatim>\<open>NULL\<close> stays \<^verbatim>\<open>NULL\<close>.\<close>

definition nvarchar :: "nat \<Rightarrow> string option \<Rightarrow> string option" where
  "nvarchar n v = map_option (take n) v"

section \<open>The conditions of the procedures\<close>

text \<open>Each definition is the condition of one \<^verbatim>\<open>IF\<close> of the procedures, as a function
  of the value the parameter has in the body; a condition whose operand is \<^verbatim>\<open>NULL\<close> is
  not true. The procedures apply \<open>title_long\<close> to the value of \<^verbatim>\<open>@title NVARCHAR(100)\<close>
  and \<open>description_long\<close> to the value of \<^verbatim>\<open>@description NVARCHAR(1000)\<close>.\<close>

definition title_missing :: "string option \<Rightarrow> bool" where
  "title_missing p_title =
     (case p_title of None \<Rightarrow> True | Some t \<Rightarrow> str_eq (LTRIM (RTRIM t)) [])"

definition title_short :: "string option \<Rightarrow> bool" where
  "title_short p_title =
     (case p_title of None \<Rightarrow> False | Some t \<Rightarrow> LEN (LTRIM (RTRIM t)) < 3)"

definition title_long :: "string option \<Rightarrow> bool" where
  "title_long p_title = (case p_title of None \<Rightarrow> False | Some t \<Rightarrow> LEN t > 100)"

definition description_long :: "string option \<Rightarrow> bool" where
  "description_long p_description =
     (case p_description of None \<Rightarrow> False | Some s \<Rightarrow> LEN s > 1000)"

definition dueDate_past :: "datetime2 \<Rightarrow> date option \<Rightarrow> bool" where
  "dueDate_past now p_dueDate =
     (case p_dueDate of None \<Rightarrow> False | Some dd \<Rightarrow> dd < CAST_AS_DATE now)"

definition not_between_0_and_2 :: "int \<Rightarrow> bool" where
  "not_between_0_and_2 n = (\<not> (0 \<le> n \<and> n \<le> 2))"

definition account_exists :: "db \<Rightarrow> int \<Rightarrow> bool" where
  "account_exists d p_idAccount = (\<exists>acc \<in> set (accounts d). acc = p_idAccount)"

definition user_exists :: "db \<Rightarrow> int \<Rightarrow> int \<Rightarrow> bool" where
  "user_exists d p_idAccount p_idUser =
     (\<exists>usr \<in> set (users d). fst usr = p_idUser \<and> snd usr = p_idAccount)"

text \<open>The \<^verbatim>\<open>WHERE\<close> clause shared by the existence check, the \<^verbatim>\<open>SELECT\<close> of
  \<^verbatim>\<open>spTaskGet\<close> and the \<^verbatim>\<open>UPDATE\<close> statements.\<close>

definition task_matches :: "int \<Rightarrow> int \<Rightarrow> int \<Rightarrow> task \<Rightarrow> bool" where
  "task_matches p_idAccount p_idUser p_idTask tsk =
     (idTask tsk = p_idTask \<and> idAccount tsk = p_idAccount \<and> idUser tsk = p_idUser
      \<and> \<not> deleted tsk)"

definition task_exists :: "db \<Rightarrow> int \<Rightarrow> int \<Rightarrow> int \<Rightarrow> bool" where
  "task_exists d p_idAccount p_idUser p_idTask =
     (\<exists>tsk \<in> set (tasks d). task_matches p_idAccount p_idUser p_idTask tsk)"

definition select_columns :: "task \<Rightarrow> TaskEntity" where
  "select_columns tsk =
     \<lparr> idTask = idTask tsk, title = title tsk, description = description tsk,
       dueDate = dueDate tsk, priority = priority tsk, status = status tsk,
       dateCreated = dateCreated tsk, dateModified = dateModified tsk \<rparr>"

section \<open>The stored procedures\<close>

text \<open>
  Every procedure runs at one instant \<open>now\<close>, which \<^verbatim>\<open>GETUTCDATE()\<close> reads. A mutating
  procedure returns its result and the database after it; a \<^verbatim>\<open>THROW\<close> before
  \<^verbatim>\<open>BEGIN TRAN\<close> leaves the database as it was. \<open>spTaskCreate_body\<close> and
  \<open>spTaskUpdate_body\<close> are the statements between \<^verbatim>\<open>BEGIN\<close> and \<^verbatim>\<open>END\<close>, on the values of
  the parameters; \<open>spTaskCreate\<close> and \<open>spTaskUpdate\<close> are the procedures as they are called:
  the arguments are bound to the declared parameters, then the body runs.
\<close>

definition spTaskCreate_body ::
  "datetime2 \<Rightarrow> db \<Rightarrow> int \<Rightarrow> int \<Rightarrow> string option \<Rightarrow> string option \<Rightarrow> date option \<Rightarrow> int
     \<Rightarrow> (error + int) \<times> db" where
  "spTaskCreate_body now d p_idAccount p_idUser p_title p_description p_dueDate p_priority =
     (if title_missing p_title then (Inl titleRequired, d)
      else if title_short p_title then (Inl titleTooShort, d)
      else if title_long p_title then (Inl titleTooLong, d)
      else if description_long p_description then (Inl descriptionTooLong, d)
      else if dueDate_past now p_dueDate then (Inl dueDateInPast, d)
      else if not_between_0_and_2 p_priority then (Inl invalidPriority, d)
      else if \<not> account_exists d p_idAccount then (Inl accountDoesntExist, d)
      else if \<not> user_exists d p_idAccount p_idUser then (Inl userDoesntExist, d)
      else
        let currentDate = now;
            new_idTask = ident d;
            row = \<lparr> idTask = new_idTask,
                    title = (case p_title of None \<Rightarrow> [] | Some t \<Rightarrow> LTRIM (RTRIM t)),
                    description = p_description,
                    dueDate = p_dueDate,
                    priority = p_priority,
                    status = 0,
                    dateCreated = currentDate,
                    dateModified = currentDate,
                    idAccount = p_idAccount,
                    idUser = p_idUser,
                    deleted = False \<rparr>
        in (Inr new_idTask, d\<lparr> tasks := tasks d @ [row], ident := ident d + 1 \<rparr>))"

definition spTaskCreate ::
  "datetime2 \<Rightarrow> db \<Rightarrow> int \<Rightarrow> int \<Rightarrow> string option \<Rightarrow> string option \<Rightarrow> date option \<Rightarrow> int
     \<Rightarrow> (error + int) \<times> db" where
  "spTaskCreate now d p_idAccount p_idUser p_title p_description p_dueDate p_priority =
     spTaskCreate_body now d p_idAccount p_idUser (nvarchar 100 p_title)
       (nvarchar 1000 p_description) p_dueDate p_priority"

definition update_row ::
  "datetime2 \<Rightarrow> string option \<Rightarrow> string option \<Rightarrow> date option \<Rightarrow> int \<Rightarrow> int \<Rightarrow> task \<Rightarrow> task" where
  "update_row now p_title p_description p_dueDate p_priority p_status tsk =
     tsk\<lparr> title := (case p_title of None \<Rightarrow> [] | Some t \<Rightarrow> LTRIM (RTRIM t)),
          description := p_description,
          dueDate := p_dueDate,
          priority := p_priority,
          status := p_status,
          dateModified := now \<rparr>"

definition spTaskUpdate_body ::
  "datetime2 \<Rightarrow> db \<Rightarrow> int \<Rightarrow> int \<Rightarrow> int \<Rightarrow> string option \<Rightarrow> string option \<Rightarrow> date option
     \<Rightarrow> int \<Rightarrow> int \<Rightarrow> (error + int) \<times> db" where
  "spTaskUpdate_body now d p_idAccount p_idUser p_idTask p_title p_description p_dueDate
       p_priority p_status =
     (if title_missing p_title then (Inl titleRequired, d)
      else if title_short p_title then (Inl titleTooShort, d)
      else if title_long p_title then (Inl titleTooLong, d)
      else if description_long p_description then (Inl descriptionTooLong, d)
      else if dueDate_past now p_dueDate then (Inl dueDateInPast, d)
      else if not_between_0_and_2 p_priority then (Inl invalidPriority, d)
      else if not_between_0_and_2 p_status then (Inl invalidStatus, d)
      else if \<not> task_exists d p_idAccount p_idUser p_idTask then (Inl taskDoesntExist, d)
      else
        (Inr p_idTask,
         d\<lparr> tasks :=
              map (\<lambda>tsk. if task_matches p_idAccount p_idUser p_idTask tsk
                         then update_row now p_title p_description p_dueDate p_priority
                                p_status tsk
                         else tsk)
                  (tasks d) \<rparr>))"

definition spTaskUpdate ::
  "datetime2 \<Rightarrow> db \<Rightarrow> int \<Rightarrow> int \<Rightarrow> int \<Rightarrow> string option \<Rightarrow> string option \<Rightarrow> date option
     \<Rightarrow> int \<Rightarrow> int \<Rightarrow> (error + int) \<times> db" where
  "spTaskUpdate now d p_idAccount p_idUser p_idTask p_title p_description p_dueDate
       p_priority p_status =
     spTaskUpdate_body now d p_idAccount p_idUser p_idTask (nvarchar 100 p_title)
       (nvarchar 1000 p_description) p_dueDate p_priority p_status"

definition spTaskGet :: "db \<Rightarrow> int \<Rightarrow> int \<Rightarrow> int \<Rightarrow> error + TaskEntity list" where
  "spTaskGet d p_idAccount p_idUser p_idTask =
     (if \<not> account_exists d p_idAccount then Inl accountDoesntExist
      else if \<not> user_exists d p_idAccount p_idUser then Inl userDoesntExist
      else if \<not> task_exists d p_idAccount p_idUser p_idTask then Inl taskDoesntExist
      else Inr (map select_columns
                  (filter (task_matches p_idAccount p_idUser p_idTask) (tasks d))))"

text \<open>
  \<^verbatim>\<open>ORDER BY [priority] DESC, [dueDate] ASC, [dateCreated] DESC\<close>: rows are sorted on
  the key below, compared lexicographically. The server orders \<^verbatim>\<open>NULL\<close> before every
  value, which is the order of \<open>None\<close> and \<open>Some\<close> on \<open>option\<close>.
  Rows with equal keys stay in table order; the server promises no order among them, and
  no property below depends on it.
\<close>

definition order_by_key :: "task \<Rightarrow> int \<times> date option \<times> int" where
  "order_by_key tsk = (- priority tsk, dueDate tsk, - dateCreated tsk)"

definition list_where :: "int \<Rightarrow> int \<Rightarrow> int option \<Rightarrow> int option \<Rightarrow> task \<Rightarrow> bool" where
  "list_where p_idAccount p_idUser p_status p_priority tsk =
     (idAccount tsk = p_idAccount \<and> idUser tsk = p_idUser \<and> \<not> deleted tsk
      \<and> (case p_status of None \<Rightarrow> True | Some s \<Rightarrow> status tsk = s)
      \<and> (case p_priority of None \<Rightarrow> True | Some p \<Rightarrow> priority tsk = p))"

definition spTaskList ::
  "db \<Rightarrow> int \<Rightarrow> int \<Rightarrow> int option \<Rightarrow> int option \<Rightarrow> error + TaskEntity list" where
  "spTaskList d p_idAccount p_idUser p_status p_priority =
     (if \<not> account_exists d p_idAccount then Inl accountDoesntExist
      else if \<not> user_exists d p_idAccount p_idUser then Inl userDoesntExist
      else Inr (map select_columns
                  (sort_key order_by_key
                     (filter (list_where p_idAccount p_idUser p_status p_priority)
                        (tasks d)))))"

definition spTaskDelete ::
  "datetime2 \<Rightarrow> db \<Rightarrow> int \<Rightarrow> int \<Rightarrow> int \<Rightarrow> (error + int) \<times> db" where
  "spTaskDelete now d p_idAccount p_idUser p_idTask =
     (if \<not> account_exists d p_idAccount then (Inl accountDoesntExist, d)
      else if \<not> user_exists d p_idAccount p_idUser then (Inl userDoesntExist, d)
      else if \<not> task_exists d p_idAccount p_idUser p_idTask then (Inl taskDoesntExist, d)
      else
        (Inr p_idTask,
         d\<lparr> tasks :=
              map (\<lambda>tsk. if task_matches p_idAccount p_idUser p_idTask tsk
                         then tsk\<lparr> deleted := True, dateModified := now \<rparr>
                         else tsk)
                  (tasks d) \<rparr>))"

section \<open>The service layer\<close>

text \<open>
  \<^verbatim>\<open>taskRules.ts\<close>: each function executes its procedure through \<^verbatim>\<open>dbRequest\<close>, which
  returns the record set; a \<^verbatim>\<open>THROW\<close> of the procedure is the exception of the call.
  The title of a request is a string, never \<^verbatim>\<open>null\<close>. \<^verbatim>\<open>taskCreate\<close>, \<^verbatim>\<open>taskUpdate\<close>,
  \<^verbatim>\<open>taskGet\<close> and \<^verbatim>\<open>taskDelete\<close> return \<^verbatim>\<open>result[0]\<close>, which is \<^verbatim>\<open>undefined\<close>
  (\<open>None\<close> below) on an empty record set; the record set of the three mutating
  procedures is the single row \<^verbatim>\<open>SELECT @idTask AS [idTask]\<close>.
\<close>

definition taskCreate ::
  "datetime2 \<Rightarrow> db \<Rightarrow> int \<Rightarrow> int \<Rightarrow> string \<Rightarrow> string option \<Rightarrow> date option \<Rightarrow> int
     \<Rightarrow> (error + int) \<times> db" where
  "taskCreate now d p_idAccount p_idUser p_title p_description p_dueDate p_priority =
     spTaskCreate now d p_idAccount p_idUser (Some p_title) p_description p_dueDate p_priority"

definition taskList ::
  "db \<Rightarrow> int \<Rightarrow> int \<Rightarrow> int option \<Rightarrow> int option \<Rightarrow> error + TaskEntity list" where
  "taskList d p_idAccount p_idUser p_status p_priority =
     spTaskList d p_idAccount p_idUser p_status p_priority"

definition taskGet :: "db \<Rightarrow> int \<Rightarrow> int \<Rightarrow> int \<Rightarrow> error + TaskEntity option" where
  "taskGet d p_idAccount p_idUser p_idTask =
     (case spTaskGet d p_idAccount p_idUser p_idTask of
        Inl e \<Rightarrow> Inl e
      | Inr result \<Rightarrow> Inr (case result of [] \<Rightarrow> None | r # _ \<Rightarrow> Some r))"

definition taskUpdate ::
  "datetime2 \<Rightarrow> db \<Rightarrow> int \<Rightarrow> int \<Rightarrow> int \<Rightarrow> string \<Rightarrow> string option \<Rightarrow> date option \<Rightarrow> int \<Rightarrow> int
     \<Rightarrow> (error + int) \<times> db" where
  "taskUpdate now d p_idAccount p_idUser p_idTask p_title p_description p_dueDate p_priority
       p_status =
     spTaskUpdate now d p_idAccount p_idUser p_idTask (Some p_title) p_description p_dueDate
       p_priority p_status"

definition taskDelete ::
  "datetime2 \<Rightarrow> db \<Rightarrow> int \<Rightarrow> int \<Rightarrow> int \<Rightarrow> (error + int) \<times> db" where
  "taskDelete now d p_idAccount p_idUser p_idTask =
     spTaskDelete now d p_idAccount p_idUser p_idTask"

section \<open>The controllers\<close>

text \<open>
  A request parameter is a JSON value; \<open>JOther\<close> stands for every value that is neither
  absent, \<^verbatim>\<open>null\<close>, a string nor an integer. The value a nullable or optional schema
  yields is \<^verbatim>\<open>undefined\<close>, \<^verbatim>\<open>null\<close> or a value.
\<close>

datatype jsval = JUndefined | JNull | JString string | JInt int | JOther

datatype 'a js = Undefined | Null | Value 'a

text \<open>A parameter under \<^verbatim>\<open>z.coerce.number()\<close>: absent, \<^verbatim>\<open>null\<close>, or the result of
  \<^verbatim>\<open>Number(x)\<close>, which is an integer or is not.\<close>

datatype coerced = CUndefined | CNull | CInt int | CNotInt

text \<open>What a handler does with the response: \<^verbatim>\<open>res.json(successResponse(data))\<close>,
  \<^verbatim>\<open>res.status(400).json(errorResponse(error.message))\<close>, \<^verbatim>\<open>next(error)\<close> with the
  validation error, or \<^verbatim>\<open>next(StatusGeneralError)\<close>.\<close>

datatype 'a response = Json200 'a | Json400 error | NextValidationError | NextStatusGeneralError

text \<open>\<^verbatim>\<open>zStringWithMax(n)\<close> is \<^verbatim>\<open>z.string().min(1).max(n)\<close>, and
  \<^verbatim>\<open>zNullableStringWithMax(n)\<close> is \<^verbatim>\<open>z.string().max(n).nullable()\<close>.\<close>

definition zStringWithMax :: "nat \<Rightarrow> jsval \<Rightarrow> string option" where
  "zStringWithMax maxLength v =
     (case v of
        JString s \<Rightarrow> if 1 \<le> length s \<and> length s \<le> maxLength then Some s else None
      | _ \<Rightarrow> None)"

definition zNullableStringWithMax :: "nat \<Rightarrow> jsval \<Rightarrow> string js option" where
  "zNullableStringWithMax maxLength v =
     (case v of
        JNull \<Rightarrow> Some Null
      | JString s \<Rightarrow> if length s \<le> maxLength then Some (Value s) else None
      | _ \<Rightarrow> None)"

text \<open>\<^verbatim>\<open>zStringWithMax(100).min(3)\<close>.\<close>

definition title_schema :: "jsval \<Rightarrow> string option" where
  "title_schema v =
     (case zStringWithMax 100 v of
        None \<Rightarrow> None
      | Some s \<Rightarrow> if 3 \<le> length s then Some s else None)"

text \<open>\<^verbatim>\<open>z.string().datetime().nullable().optional()\<close>; \<open>datetime\<close> says which strings
  \<^verbatim>\<open>z.string().datetime()\<close> accepts.\<close>

definition dueDate_schema :: "(string \<Rightarrow> bool) \<Rightarrow> jsval \<Rightarrow> string js option" where
  "dueDate_schema datetime v =
     (case v of
        JUndefined \<Rightarrow> Some Undefined
      | JNull \<Rightarrow> Some Null
      | JString s \<Rightarrow> if datetime s then Some (Value s) else None
      | _ \<Rightarrow> None)"

text \<open>\<^verbatim>\<open>z.number().int().min(0).max(2)\<close>, and the same with \<^verbatim>\<open>.optional().default(1)\<close>.\<close>

definition int_0_2_schema :: "jsval \<Rightarrow> int option" where
  "int_0_2_schema v =
     (case v of JInt n \<Rightarrow> if 0 \<le> n \<and> n \<le> 2 then Some n else None | _ \<Rightarrow> None)"

definition priority_default_schema :: "jsval \<Rightarrow> int option" where
  "priority_default_schema v = (case v of JUndefined \<Rightarrow> Some 1 | _ \<Rightarrow> int_0_2_schema v)"

text \<open>\<^verbatim>\<open>z.coerce.number().int().min(0).max(2).nullable().optional()\<close>.\<close>

definition filter_schema :: "coerced \<Rightarrow> int js option" where
  "filter_schema v =
     (case v of
        CUndefined \<Rightarrow> Some Undefined
      | CNull \<Rightarrow> Some Null
      | CInt n \<Rightarrow> if 0 \<le> n \<and> n \<le> 2 then Some (Value n) else None
      | CNotInt \<Rightarrow> None)"

text \<open>\<^verbatim>\<open>z.coerce.number().int().positive()\<close>.\<close>

definition id_schema :: "coerced \<Rightarrow> int option" where
  "id_schema v = (case v of CInt n \<Rightarrow> if 0 < n then Some n else None | _ \<Rightarrow> None)"

text \<open>The expression \<^verbatim>\<open>x || null\<close>: \<^verbatim>\<open>undefined\<close>, \<^verbatim>\<open>null\<close>, the empty string and
  the number 0 are falsy.\<close>

definition or_null_string :: "string js \<Rightarrow> string option" where
  "or_null_string x =
     (case x of Undefined \<Rightarrow> None | Null \<Rightarrow> None
      | Value s \<Rightarrow> if s = [] then None else Some s)"

definition or_null_number :: "int js \<Rightarrow> int option" where
  "or_null_number x =
     (case x of Undefined \<Rightarrow> None | Null \<Rightarrow> None
      | Value n \<Rightarrow> if n = 0 then None else Some n)"

text \<open>
  The due date reaches the procedures' \<^verbatim>\<open>DATE\<close> parameter as the string of the request;
  \<open>to_date\<close> is the conversion the database applies, \<open>None\<close> where the conversion fails
  (an error whose number is not 51000).
\<close>

definition bind_dueDate :: "(string \<Rightarrow> date option) \<Rightarrow> string option \<Rightarrow> date option option" where
  "bind_dueDate to_date p_dueDate =
     (case p_dueDate of None \<Rightarrow> Some None
      | Some s \<Rightarrow> (case to_date s of None \<Rightarrow> None | Some dd \<Rightarrow> Some (Some dd)))"

definition respond :: "(error + 'a) \<times> db \<Rightarrow> 'a response \<times> db" where
  "respond r = (case fst r of Inl e \<Rightarrow> (Json400 e, snd r) | Inr data \<Rightarrow> (Json200 data, snd r))"

text \<open>\<^verbatim>\<open>CrudController.validateRequest\<close> sets the credential to account 1, user 1.\<close>

definition credential_idAccount :: int where "credential_idAccount = 1"
definition credential_idUser :: int where "credential_idUser = 1"

text \<open>\<^verbatim>\<open>postHandler\<close> of the task controller.\<close>

definition postHandler ::
  "(string \<Rightarrow> bool) \<Rightarrow> (string \<Rightarrow> date option) \<Rightarrow> datetime2 \<Rightarrow> db
     \<Rightarrow> jsval \<Rightarrow> jsval \<Rightarrow> jsval \<Rightarrow> jsval \<Rightarrow> int response \<times> db" where
  "postHandler datetime to_date now d r_title r_description r_dueDate r_priority =
     (case (title_schema r_title, zNullableStringWithMax 1000 r_description,
            dueDate_schema datetime r_dueDate, priority_default_schema r_priority) of
        (Some v_title, Some v_description, Some v_dueDate, Some v_priority) \<Rightarrow>
          (case bind_dueDate to_date (or_null_string v_dueDate) of
             None \<Rightarrow> (NextStatusGeneralError, d)
           | Some dd \<Rightarrow>
               respond (taskCreate now d credential_idAccount credential_idUser v_title
                          (or_null_string v_description) dd v_priority))
      | _ \<Rightarrow> (NextValidationError, d))"

text \<open>\<^verbatim>\<open>getHandler\<close> of the task controller (the list).\<close>

definition getHandler :: "db \<Rightarrow> coerced \<Rightarrow> coerced \<Rightarrow> TaskEntity list response" where
  "getHandler d r_status r_priority =
     (case (filter_schema r_status, filter_schema r_priority) of
        (Some v_status, Some v_priority) \<Rightarrow>
          (case taskList d credential_idAccount credential_idUser
                  (or_null_number v_status) (or_null_number v_priority) of
             Inl e \<Rightarrow> Json400 e
           | Inr data \<Rightarrow> Json200 data)
      | _ \<Rightarrow> NextValidationError)"

text \<open>\<^verbatim>\<open>getHandler\<close> and \<^verbatim>\<open>putHandler\<close> of the task detail controller.\<close>

definition getHandler_detail :: "db \<Rightarrow> coerced \<Rightarrow> TaskEntity option response" where
  "getHandler_detail d r_id =
     (case id_schema r_id of
        None \<Rightarrow> NextValidationError
      | Some v_id \<Rightarrow>
          (case taskGet d credential_idAccount credential_idUser v_id of
             Inl e \<Rightarrow> Json400 e
           | Inr data \<Rightarrow> Json200 data))"

definition putHandler ::
  "(string \<Rightarrow> bool) \<Rightarrow> (string \<Rightarrow> date option) \<Rightarrow> datetime2 \<Rightarrow> db
     \<Rightarrow> coerced \<Rightarrow> jsval \<Rightarrow> jsval \<Rightarrow> jsval \<Rightarrow> jsval \<Rightarrow> jsval \<Rightarrow> int response \<times> db" where
  "putHandler datetime to_date now d r_id r_title r_description r_dueDate r_priority r_status =
     (case (id_schema r_id, title_schema r_title, zNullableStringWithMax 1000 r_description,
            dueDate_schema datetime r_dueDate, int_0_2_schema r_priority,
            int_0_2_schema r_status) of
        (Some v_id, Some v_title, Some v_description, Some v_dueDate, Some v_priority,
         Some v_status) \<Rightarrow>
          (case bind_dueDate to_date (or_null_string v_dueDate) of
             None \<Rightarrow> (NextStatusGeneralError, d)
           | Some dd \<Rightarrow>
               respond (taskUpdate now d credential_idAccount credential_idUser v_id v_title
                          (or_null_string v_description) dd v_priority v_status))
      | _ \<Rightarrow> (NextValidationError, d))"

section \<open>Properties named by the specification\<close>

text \<open>
  The validation rules in the order the specification lists them, each with the error it
  reports and the condition of the procedures under which it fails, taken on the
  arguments of a call; \<open>first_failing\<close> is the error of the first rule of the list that
  fails. Arguments that pass all of them are the valid ones of the properties below.
\<close>

definition create_rules ::
  "datetime2 \<Rightarrow> string option \<Rightarrow> string option \<Rightarrow> date option \<Rightarrow> int \<Rightarrow> (error \<times> bool) list" where
  "create_rules now p_title p_description p_dueDate p_priority =
     [(titleRequired, title_missing p_title),
      (titleTooShort, title_short p_title),
      (titleTooLong, title_long p_title),
      (descriptionTooLong, description_long p_description),
      (dueDateInPast, dueDate_past now p_dueDate),
      (invalidPriority, not_between_0_and_2 p_priority)]"

definition update_rules ::
  "datetime2 \<Rightarrow> string option \<Rightarrow> string option \<Rightarrow> date option \<Rightarrow> int \<Rightarrow> int
     \<Rightarrow> (error \<times> bool) list" where
  "update_rules now p_title p_description p_dueDate p_priority p_status =
     create_rules now p_title p_description p_dueDate p_priority
       @ [(invalidStatus, not_between_0_and_2 p_status)]"

fun first_failing :: "(error \<times> bool) list \<Rightarrow> error option" where
  "first_failing [] = None"
| "first_failing ((e, fails) # rules) = (if fails then Some e else first_failing rules)"

text \<open>
  The same rules in the specification's own words. Trimming removes whitespace: space,
  tab, line feed, vertical tab, form feed and carriage return. The title is too short when
  fewer than 3 characters are left after trimming and too long when it has more than 100
  characters; the description is too long when it has more than 1000.
\<close>

definition whitespace :: "char \<Rightarrow> bool" where
  "whitespace c = (c \<in> {CHR '' '', CHR 0x09, CHR 0x0A, CHR 0x0B, CHR 0x0C, CHR 0x0D})"

definition trim_whitespace :: "string \<Rightarrow> string" where
  "trim_whitespace t = rev (dropWhile whitespace (rev (dropWhile whitespace t)))"

definition specified_create_rules ::
  "datetime2 \<Rightarrow> string option \<Rightarrow> string option \<Rightarrow> date option \<Rightarrow> int \<Rightarrow> (error \<times> bool) list" where
  "specified_create_rules now p_title p_description p_dueDate p_priority =
     [(titleRequired, (case p_title of None \<Rightarrow> True | Some t \<Rightarrow> trim_whitespace t = [])),
      (titleTooShort,
         (case p_title of None \<Rightarrow> False | Some t \<Rightarrow> length (trim_whitespace t) < 3)),
      (titleTooLong, (case p_title of None \<Rightarrow> False | Some t \<Rightarrow> 100 < length t)),
      (descriptionTooLong,
         (case p_description of None \<Rightarrow> False | Some s \<Rightarrow> 1000 < length s)),
      (dueDateInPast,
         (case p_dueDate of None \<Rightarrow> False | Some dd \<Rightarrow> dd < CAST_AS_DATE now)),
      (invalidPriority, p_priority \<notin> {0, 1, 2})]"

text \<open>
  The rules as the procedures apply them to a title of at most 100 characters and a
  description of at most 1000. Only the space character is trimmed: a title is missing
  when it is \<^verbatim>\<open>NULL\<close> or has no other character than spaces, and too short when fewer
  than 3 characters are left between its leading and its trailing spaces.
\<close>

definition only_spaces :: "string \<Rightarrow> bool" where
  "only_spaces t = (\<forall>c \<in> set t. c = CHR '' '')"

definition stripped_length :: "string \<Rightarrow> nat" where
  "stripped_length t =
     length t - length (takeWhile (\<lambda>c. c = CHR '' '') t)
       - length (takeWhile (\<lambda>c. c = CHR '' '') (rev t))"

definition ordered_create_rules ::
  "datetime2 \<Rightarrow> string option \<Rightarrow> date option \<Rightarrow> int \<Rightarrow> (error \<times> bool) list" where
  "ordered_create_rules now p_title p_dueDate p_priority =
     [(titleRequired, (case p_title of None \<Rightarrow> True | Some t \<Rightarrow> only_spaces t)),
      (titleTooShort, (case p_title of None \<Rightarrow> False | Some t \<Rightarrow> stripped_length t < 3)),
      (dueDateInPast,
         (case p_dueDate of None \<Rightarrow> False | Some dd \<Rightarrow> dd < CAST_AS_DATE now)),
      (invalidPriority, p_priority < 0 \<or> 2 < p_priority)]"

definition ordered_update_rules ::
  "datetime2 \<Rightarrow> string option \<Rightarrow> date option \<Rightarrow> int \<Rightarrow> int \<Rightarrow> (error \<times> bool) list" where
  "ordered_update_rules now p_title p_dueDate p_priority p_status =
     ordered_create_rules now p_title p_dueDate p_priority
       @ [(invalidStatus, p_status < 0 \<or> 2 < p_status)]"

text \<open>The arguments of a call that are not over the declared sizes.\<close>

definition within_sizes :: "string option \<Rightarrow> string option \<Rightarrow> bool" where
  "within_sizes p_title p_description =
     ((case p_title of None \<Rightarrow> True | Some t \<Rightarrow> length t \<le> 100)
      \<and> (case p_description of None \<Rightarrow> True | Some s \<Rightarrow> length s \<le> 1000))"

text \<open>The tenancy guard of the specification: the error it reports for an account and a
  user, \<open>None\<close> when both checks pass.\<close>

definition tenancy_guard :: "db \<Rightarrow> int \<Rightarrow> int \<Rightarrow> error option" where
  "tenancy_guard d p_idAccount p_idUser =
     (if \<not> account_exists d p_idAccount then Some accountDoesntExist
      else if \<not> user_exists d p_idAccount p_idUser then Some userDoesntExist
      else None)"

text \<open>The primary key \<^verbatim>\<open>pkTask\<close>, and the \<^verbatim>\<open>IDENTITY(1, 1)\<close> column: the next value is
  positive and above every value in the table.\<close>

definition pkTask :: "db \<Rightarrow> bool" where
  "pkTask d = distinct (map idTask (tasks d))"

definition identity_ok :: "db \<Rightarrow> bool" where
  "identity_ok d = (0 < ident d \<and> (\<forall>tsk \<in> set (tasks d). idTask tsk < ident d))"

text \<open>
  The order of the rows of \<^verbatim>\<open>spTaskList\<close>, as the procedure produces it: higher priority
  first; at equal priority a row without due date before every row with one, and the
  earlier due date first; at equal priority and due date the later creation first.
\<close>

definition dueDate_asc :: "date option \<Rightarrow> date option \<Rightarrow> bool" where
  "dueDate_asc x y =
     (case (x, y) of
        (None, Some _) \<Rightarrow> True
      | (Some a, Some b) \<Rightarrow> a < b
      | _ \<Rightarrow> False)"

definition listed_before :: "TaskEntity \<Rightarrow> TaskEntity \<Rightarrow> bool" where
  "listed_before x y =
     (priority x > priority y
      \<or> (priority x = priority y
          \<and> (dueDate_asc (dueDate x) (dueDate y)
              \<or> (dueDate x = dueDate y \<and> dateCreated x \<ge> dateCreated y))))"

text \<open>The order as the specification words it: the same, but a row without due date
  after every row with one.\<close>

definition dueDate_asc_nulls_last :: "date option \<Rightarrow> date option \<Rightarrow> bool" where
  "dueDate_asc_nulls_last x y =
     (case (x, y) of
        (Some _, None) \<Rightarrow> True
      | (Some a, Some b) \<Rightarrow> a < b
      | _ \<Rightarrow> False)"

definition listed_before_nulls_last :: "TaskEntity \<Rightarrow> TaskEntity \<Rightarrow> bool" where
  "listed_before_nulls_last x y =
     (priority x > priority y
      \<or> (priority x = priority y
          \<and> (dueDate_asc_nulls_last (dueDate x) (dueDate y)
              \<or> (dueDate x = dueDate y \<and> dateCreated x \<ge> dateCreated y))))"

section \<open>A sample database\<close>

text \<open>Account 1 with user 1 and account 2 with user 2; noon of day 20000 is the instant
  of the calls.\<close>

definition noon :: datetime2 where
  "noon = 20000 * 86400 + 43200"

definition db0 :: db where
  "db0 = \<lparr> accounts = [1, 2], users = [(1, 1), (2, 2)], tasks = [], ident = 1 \<rparr>"

text \<open>Three tasks of account 1, user 1, all of medium priority: a pending one without
  due date, one in progress due on day 20005, and a deleted one; and a task of account 2,
  user 2.\<close>

definition task1 :: task where
  "task1 = \<lparr> idTask = 1, title = ''Buy milk'', description = None, dueDate = None,
             priority = 1, status = 0, dateCreated = 1000, dateModified = 1000,
             idAccount = 1, idUser = 1, deleted = False \<rparr>"

definition task2 :: task where
  "task2 = \<lparr> idTask = 2, title = ''Write report'', description = Some ''draft'',
             dueDate = Some 20005, priority = 1, status = 1, dateCreated = 2000,
             dateModified = 2000, idAccount = 1, idUser = 1, deleted = False \<rparr>"

definition task3 :: task where
  "task3 = \<lparr> idTask = 3, title = ''Old task'', description = None, dueDate = None,
             priority = 2, status = 2, dateCreated = 3000, dateModified = 3500,
             idAccount = 1, idUser = 1, deleted = True \<rparr>"

definition task4 :: task where
  "task4 = \<lparr> idTask = 4, title = ''Other tenant'', description = None,
             dueDate = Some 20001, priority = 0, status = 0, dateCreated = 4000,
             dateModified = 4000, idAccount = 2, idUser = 2, deleted = False \<rparr>"

definition db1 :: db where
  "db1 = \<lparr> accounts = [1, 2], users = [(1, 1), (2, 2)],
          tasks = [task1, task2, task3, task4], ident = 5 \<rparr>"

section \<open>Facts about the built-in functions\<close>

lemmas sp_conds = title_missing_def title_short_def title_long_def description_long_def
  dueDate_past_def not_between_0_and_2_def

lemmas sql_builtins = LTRIM_def RTRIM_def LEN_def str_eq_def CAST_AS_DATE_def

lemmas db1_rows = db1_def task1_def task2_def task3_def task4_def


text \<open>Trimming removes a run of spaces at each end and nothing else, and what is left
  neither starts nor ends with a space.\<close>

lemma LTRIM_split: "\<exists>l. s = l @ LTRIM s \<and> set l \<subseteq> {CHR '' ''}"
proof -
  have "s = takeWhile (\<lambda>c. c = CHR '' '') s @ LTRIM s"
    by (simp add: LTRIM_def)
  moreover have "set (takeWhile (\<lambda>c. c = CHR '' '') s) \<subseteq> {CHR '' ''}"
    by (auto dest: set_takeWhileD)
  ultimately show ?thesis by blast
qed

lemma RTRIM_split: "\<exists>r. s = RTRIM s @ r \<and> set r \<subseteq> {CHR '' ''}"
proof -
  have "rev (rev s) = rev (takeWhile (\<lambda>c. c = CHR '' '') (rev s) @ dropWhile (\<lambda>c. c = CHR '' '') (rev s))"
    by (simp only: takeWhile_dropWhile_id)
  then have "s = RTRIM s @ rev (takeWhile (\<lambda>c. c = CHR '' '') (rev s))"
    by (simp only: rev_append rev_rev_ident RTRIM_def)
  moreover have "set (rev (takeWhile (\<lambda>c. c = CHR '' '') (rev s))) \<subseteq> {CHR '' ''}"
    by (auto dest: set_takeWhileD)
  ultimately show ?thesis by blast
qed

lemma hd_LTRIM: "LTRIM s \<noteq> [] \<Longrightarrow> hd (LTRIM s) \<noteq> CHR '' ''"
proof -
  assume "LTRIM s \<noteq> []"
  then have "dropWhile (\<lambda>c. c = CHR '' '') s \<noteq> []" by (simp add: LTRIM_def)
  from hd_dropWhile [OF this] show ?thesis by (simp add: LTRIM_def)
qed

lemma last_RTRIM: "RTRIM s \<noteq> [] \<Longrightarrow> last (RTRIM s) \<noteq> CHR '' ''"
proof -
  assume "RTRIM s \<noteq> []"
  then have ne: "dropWhile (\<lambda>c. c = CHR '' '') (rev s) \<noteq> []" by (simp add: RTRIM_def)
  from hd_dropWhile [OF this]
  have "hd (dropWhile (\<lambda>c. c = CHR '' '') (rev s)) \<noteq> CHR '' ''" .
  then show ?thesis using ne by (simp add: RTRIM_def last_rev)
qed

lemma trim_spaces:
  "\<exists>l r. s = l @ LTRIM (RTRIM s) @ r \<and> set l \<subseteq> {CHR '' ''} \<and> set r \<subseteq> {CHR '' ''}
     \<and> (LTRIM (RTRIM s) \<noteq> [] \<longrightarrow>
          hd (LTRIM (RTRIM s)) \<noteq> CHR '' '' \<and> last (LTRIM (RTRIM s)) \<noteq> CHR '' '')"
proof -
  obtain r where r: "s = RTRIM s @ r" "set r \<subseteq> {CHR '' ''}"
    using RTRIM_split by blast
  obtain l where l: "RTRIM s = l @ LTRIM (RTRIM s)" "set l \<subseteq> {CHR '' ''}"
    using LTRIM_split by blast
  have s: "s = l @ LTRIM (RTRIM s) @ r" using r(1) l(1) by (metis append.assoc)
  have "hd (LTRIM (RTRIM s)) \<noteq> CHR '' '' \<and> last (LTRIM (RTRIM s)) \<noteq> CHR '' ''"
    if ne: "LTRIM (RTRIM s) \<noteq> []"
  proof
    show "hd (LTRIM (RTRIM s)) \<noteq> CHR '' ''" using ne by (rule hd_LTRIM)
    have "RTRIM s \<noteq> []" using ne l(1) by auto
    then have "last (RTRIM s) \<noteq> CHR '' ''" by (rule last_RTRIM)
    moreover have "last (RTRIM s) = last (LTRIM (RTRIM s))"
      using l(1) ne by (metis last_appendR)
    ultimately show "last (LTRIM (RTRIM s)) \<noteq> CHR '' ''" by simp
  qed
  then show ?thesis using s r(2) l(2) by blast
qed


lemma RTRIM_RTRIM: "RTRIM (RTRIM s) = RTRIM s"
  by (simp add: RTRIM_def)

lemma RTRIM_append_spaces:
  assumes "set r \<subseteq> {CHR '' ''}"
  shows "RTRIM (s @ r) = RTRIM s"
proof -
  have "dropWhile (\<lambda>c. c = CHR '' '') (rev r @ rev s) = dropWhile (\<lambda>c. c = CHR '' '') (rev s)"
    using assms by (intro dropWhile_append2) auto
  then show ?thesis by (simp add: RTRIM_def)
qed

lemma LEN_le_length: "LEN s \<le> int (length s)"
  by (simp add: LEN_def RTRIM_def length_dropWhile_le [of _ "rev s", simplified])

text \<open>Cutting a string to a size that its \<^verbatim>\<open>LEN\<close> does not exceed removes trailing
  spaces only.\<close>

lemma RTRIM_take:
  assumes "LEN s \<le> int n"
  shows "RTRIM (take n s) = RTRIM s"
proof -
  obtain r where r: "s = RTRIM s @ r" "set r \<subseteq> {CHR '' ''}"
    using RTRIM_split by blast
  have len: "length (RTRIM s) \<le> n" using assms by (simp add: LEN_def)
  have "take n s = take n (RTRIM s @ r)" using r(1) by simp
  also have "\<dots> = RTRIM s @ take (n - length (RTRIM s)) r" using len by simp
  finally have "RTRIM (take n s) = RTRIM (RTRIM s @ take (n - length (RTRIM s)) r)"
    by simp
  also have "\<dots> = RTRIM (RTRIM s)"
  proof (rule RTRIM_append_spaces)
    show "set (take (n - length (RTRIM s)) r) \<subseteq> {CHR '' ''}"
      using r(2) set_take_subset by fast
  qed
  finally show ?thesis by (simp add: RTRIM_RTRIM)
qed

section \<open>Binding of the parameters\<close>

text \<open>The body never finds the title or the description too long.\<close>

lemma bound_never_long:
  "\<not> title_long (nvarchar 100 p_title)" "\<not> description_long (nvarchar 1000 p_description)"
proof -
  have le: "LEN (take n s) \<le> int n" for n s
    using LEN_le_length [of "take n s"] by simp
  show "\<not> title_long (nvarchar 100 p_title)"
  proof (cases p_title)
    case None
    then show ?thesis by (simp add: title_long_def nvarchar_def)
  next
    case (Some t)
    then show ?thesis using le [of 100 t] by (simp add: title_long_def nvarchar_def)
  qed
  show "\<not> description_long (nvarchar 1000 p_description)"
  proof (cases p_description)
    case None
    then show ?thesis by (simp add: description_long_def nvarchar_def)
  next
    case (Some t)
    then show ?thesis using le [of 1000 t] by (simp add: description_long_def nvarchar_def)
  qed
qed

text \<open>Arguments that the length checks accept meet the other title checks as their
  bound values do, and are stored with the same title.\<close>

lemma bound_title:
  assumes "\<not> title_long p_title"
  shows "title_missing (nvarchar 100 p_title) = title_missing p_title"
    and "title_short (nvarchar 100 p_title) = title_short p_title"
    and "(case nvarchar 100 p_title of None \<Rightarrow> [] | Some t \<Rightarrow> LTRIM (RTRIM t))
         = (case p_title of None \<Rightarrow> [] | Some t \<Rightarrow> LTRIM (RTRIM t))"
proof -
  have "RTRIM (take 100 t) = RTRIM t" if "p_title = Some t" for t
    using assms that RTRIM_take [of t 100] by (simp add: title_long_def)
  then show "title_missing (nvarchar 100 p_title) = title_missing p_title"
    "title_short (nvarchar 100 p_title) = title_short p_title"
    "(case nvarchar 100 p_title of None \<Rightarrow> [] | Some t \<Rightarrow> LTRIM (RTRIM t))
         = (case p_title of None \<Rightarrow> [] | Some t \<Rightarrow> LTRIM (RTRIM t))"
    by (cases p_title; simp add: title_missing_def title_short_def nvarchar_def)+
qed

lemma bound_within_sizes:
  assumes "within_sizes p_title p_description"
  shows "nvarchar 100 p_title = p_title" "nvarchar 1000 p_description = p_description"
  using assms by (auto simp: within_sizes_def nvarchar_def split: option.splits)

text \<open>The statements of the body: the first condition that holds decides the error.\<close>

lemma body_rules:
  "first_failing (create_rules now p_title p_description p_dueDate p_priority) = None \<longleftrightarrow>
     \<not> title_missing p_title \<and> \<not> title_short p_title \<and> \<not> title_long p_title
     \<and> \<not> description_long p_description \<and> \<not> dueDate_past now p_dueDate
     \<and> \<not> not_between_0_and_2 p_priority"
  "first_failing (update_rules now p_title p_description p_dueDate p_priority p_status)
     = None \<longleftrightarrow>
     \<not> title_missing p_title \<and> \<not> title_short p_title \<and> \<not> title_long p_title
     \<and> \<not> description_long p_description \<and> \<not> dueDate_past now p_dueDate
     \<and> \<not> not_between_0_and_2 p_priority \<and> \<not> not_between_0_and_2 p_status"
  by (simp_all add: create_rules_def update_rules_def)

text \<open>Arguments that pass the rules are bound to values that pass them.\<close>

lemma bound_rules:
  "first_failing (create_rules now p_title p_description p_dueDate p_priority) = None \<Longrightarrow>
   first_failing (create_rules now (nvarchar 100 p_title) (nvarchar 1000 p_description)
     p_dueDate p_priority) = None"
  "first_failing (update_rules now p_title p_description p_dueDate p_priority p_status)
     = None \<Longrightarrow>
   first_failing (update_rules now (nvarchar 100 p_title) (nvarchar 1000 p_description)
     p_dueDate p_priority p_status) = None"
  by (simp_all add: body_rules bound_never_long bound_title)


section \<open>Trimming in the words of the rules\<close>

lemma RTRIM_unchanged:
  assumes "s = [] \<or> last s \<noteq> CHR '' ''"
  shows "RTRIM s = s"
proof (cases s rule: rev_cases)
  case Nil
  then show ?thesis by (simp add: RTRIM_def)
next
  case (snoc ys y)
  then have "y \<noteq> CHR '' ''" using assms by simp
  then show ?thesis using snoc by (simp add: RTRIM_def)
qed

lemma stripped_length_split:
  assumes t: "t = l @ m @ r"
    and l: "set l \<subseteq> {CHR '' ''}" and r: "set r \<subseteq> {CHR '' ''}"
    and m: "m = [] \<or> (hd m \<noteq> CHR '' '' \<and> last m \<noteq> CHR '' '')"
  shows "stripped_length t = length m"
proof (cases "m = []")
  case True
  have "\<forall>c \<in> set t. c = CHR '' ''" using t l r True by auto
  then have "takeWhile (\<lambda>c. c = CHR '' '') t = t"
    "takeWhile (\<lambda>c. c = CHR '' '') (rev t) = rev t"
    by (simp_all add: takeWhile_eq_all_conv)
  then have "length (takeWhile (\<lambda>c. c = CHR '' '') t) = length t"
    "length (takeWhile (\<lambda>c. c = CHR '' '') (rev t)) = length t"
    by (simp_all only: length_rev)
  then show ?thesis using True by (simp only: stripped_length_def) simp
next
  case False
  then obtain x xs where x: "m = x # xs" by (cases m) auto
  obtain y ys where y: "m = ys @ [y]" using False by (cases m rule: rev_cases) auto
  have hd: "x \<noteq> CHR '' ''" using m False x by simp
  have last: "y \<noteq> CHR '' ''" using m False y by simp
  have "takeWhile (\<lambda>c. c = CHR '' '') t = l"
  proof -
    have "takeWhile (\<lambda>c. c = CHR '' '') (l @ x # xs @ r) = l"
      using l hd by (intro takeWhile_tail [THEN trans]) (auto simp: takeWhile_eq_all_conv)
    then show ?thesis using t x by simp
  qed
  moreover have "takeWhile (\<lambda>c. c = CHR '' '') (rev t) = rev r"
  proof -
    have "rev t = rev r @ y # rev ys @ rev l" using t y by simp
    moreover have "takeWhile (\<lambda>c. c = CHR '' '') (rev r @ y # rev ys @ rev l) = rev r"
      using r last by (intro takeWhile_tail [THEN trans]) (auto simp: takeWhile_eq_all_conv)
    ultimately show ?thesis by simp
  qed
  ultimately show ?thesis using t by (simp add: stripped_length_def)
qed

lemma length_trimmed: "length (LTRIM (RTRIM t)) = stripped_length t"
proof -
  obtain l r where lr: "t = l @ LTRIM (RTRIM t) @ r" "set l \<subseteq> {CHR '' ''}"
    "set r \<subseteq> {CHR '' ''}"
    and m: "LTRIM (RTRIM t) \<noteq> [] \<longrightarrow>
       hd (LTRIM (RTRIM t)) \<noteq> CHR '' '' \<and> last (LTRIM (RTRIM t)) \<noteq> CHR '' ''"
    using trim_spaces [of t] by blast
  from m have "LTRIM (RTRIM t) = []
      \<or> (hd (LTRIM (RTRIM t)) \<noteq> CHR '' '' \<and> last (LTRIM (RTRIM t)) \<noteq> CHR '' '')"
    by blast
  from stripped_length_split [OF lr this] show ?thesis by simp
qed

lemma LEN_trimmed: "LEN (LTRIM (RTRIM t)) = int (stripped_length t)"
proof -
  have "LTRIM (RTRIM t) = [] \<or> last (LTRIM (RTRIM t)) \<noteq> CHR '' ''"
    using trim_spaces [of t] by blast
  then have "RTRIM (LTRIM (RTRIM t)) = LTRIM (RTRIM t)" by (rule RTRIM_unchanged)
  then show ?thesis by (simp add: LEN_def length_trimmed)
qed

lemma trimmed_empty: "LTRIM (RTRIM t) = [] \<longleftrightarrow> only_spaces t"
proof
  assume e: "LTRIM (RTRIM t) = []"
  obtain l r where lr: "t = l @ LTRIM (RTRIM t) @ r" "set l \<subseteq> {CHR '' ''}"
    "set r \<subseteq> {CHR '' ''}"
    using trim_spaces [of t] by blast
  have "set t = set l \<union> set r" using lr(1) e by (metis append_Nil set_append)
  then show "only_spaces t"
    using lr(2,3) unfolding only_spaces_def by blast
next
  assume "only_spaces t"
  then have "\<forall>c \<in> set (rev t). c = CHR '' ''" by (simp add: only_spaces_def)
  then have d: "dropWhile (\<lambda>c. c = CHR '' '') (rev t) = []" by simp
  show "LTRIM (RTRIM t) = []" unfolding LTRIM_def RTRIM_def d by simp
qed

lemma title_conditions:
  "title_missing (Some t) \<longleftrightarrow> only_spaces t"
  "title_short (Some t) \<longleftrightarrow> stripped_length t < 3"
proof -
  have "LTRIM (RTRIM t) = [] \<or> last (LTRIM (RTRIM t)) \<noteq> CHR '' ''"
    using trim_spaces [of t] by blast
  then have "RTRIM (LTRIM (RTRIM t)) = LTRIM (RTRIM t)" by (rule RTRIM_unchanged)
  moreover have "RTRIM [] = []" by (simp add: RTRIM_def)
  ultimately show "title_missing (Some t) \<longleftrightarrow> only_spaces t"
    by (simp add: title_missing_def str_eq_def trimmed_empty)
  show "title_short (Some t) \<longleftrightarrow> stripped_length t < 3"
    by (simp add: title_short_def LEN_trimmed)
qed

section \<open>Validation order\<close>

text \<open>\<open>first_failing\<close> returns the error of the rule at the least index that fails.\<close>

lemma first_failing_index:
  "first_failing rules = Some e \<longleftrightarrow>
     (\<exists>i < length rules. rules ! i = (e, True) \<and> (\<forall>j < i. \<not> snd (rules ! j)))"
proof (induction rules)
  case Nil
  then show ?case by simp
next
  case (Cons r rules)
  obtain e' b where r: "r = (e', b)" by (cases r)
  show ?case
  proof (cases b)
    case True
    have "(\<exists>i < length (r # rules). (r # rules) ! i = (e, True)
             \<and> (\<forall>j < i. \<not> snd ((r # rules) ! j))) \<longleftrightarrow> e' = e"
    proof
      assume "\<exists>i < length (r # rules). (r # rules) ! i = (e, True)
                \<and> (\<forall>j < i. \<not> snd ((r # rules) ! j))"
      then obtain i where i: "i < length (r # rules)" "(r # rules) ! i = (e, True)"
        "\<forall>j < i. \<not> snd ((r # rules) ! j)" by blast
      have "i = 0"
      proof (rule ccontr)
        assume "i \<noteq> 0"
        then have "\<not> snd ((r # rules) ! 0)" using i(3) by blast
        then show False using r True by simp
      qed
      then show "e' = e" using i(2) r by simp
    next
      assume "e' = e"
      then have "(r # rules) ! 0 = (e, True)" using r True by simp
      then show "\<exists>i < length (r # rules). (r # rules) ! i = (e, True)
                   \<and> (\<forall>j < i. \<not> snd ((r # rules) ! j))"
        by (intro exI [of _ 0]) simp
    qed
    then show ?thesis using r True by auto
  next
    case False
    have "(\<exists>i < length (r # rules). (r # rules) ! i = (e, True)
             \<and> (\<forall>j < i. \<not> snd ((r # rules) ! j)))
          \<longleftrightarrow> (\<exists>i < length rules. rules ! i = (e, True) \<and> (\<forall>j < i. \<not> snd (rules ! j)))"
      (is "?L \<longleftrightarrow> ?R")
    proof
      assume ?L
      then obtain i where i: "i < length (r # rules)" "(r # rules) ! i = (e, True)"
        "\<forall>j < i. \<not> snd ((r # rules) ! j)" by blast
      have "i \<noteq> 0"
      proof
        assume "i = 0"
        with i(2) r False show False by simp
      qed
      then obtain k where k: "i = Suc k" by (cases i) auto
      have "k < length rules" "rules ! k = (e, True)" using i k by auto
      moreover have "\<forall>j < k. \<not> snd (rules ! j)"
      proof (intro allI impI)
        fix j assume "j < k"
        then have "Suc j < i" using k by simp
        then have "\<not> snd ((r # rules) ! Suc j)" using i(3) by blast
        then show "\<not> snd (rules ! j)" by simp
      qed
      ultimately show ?R by blast
    next
      assume ?R
      then obtain k where k: "k < length rules" "rules ! k = (e, True)"
        "\<forall>j < k. \<not> snd (rules ! j)" by blast
      have "\<forall>j < Suc k. \<not> snd ((r # rules) ! j)"
      proof (intro allI impI)
        fix j assume "j < Suc k"
        then show "\<not> snd ((r # rules) ! j)"
          using k(3) r False by (cases j) auto
      qed
      then show ?L using k by (intro exI [of _ "Suc k"]) simp
    qed
    then show ?thesis using r False Cons.IH by simp
  qed
qed


text \<open>The body reports the first of its conditions that holds, and no validation error
  when none holds.\<close>

lemma body_first_failing:
  "first_failing (create_rules now p_title p_description p_dueDate p_priority) = Some e \<Longrightarrow>
   spTaskCreate_body now d p_idAccount p_idUser p_title p_description p_dueDate p_priority
     = (Inl e, d)"
  "first_failing (update_rules now p_title p_description p_dueDate p_priority p_status)
     = Some e \<Longrightarrow>
   spTaskUpdate_body now d p_idAccount p_idUser p_idTask p_title p_description p_dueDate
     p_priority p_status = (Inl e, d)"
  by (auto simp: create_rules_def update_rules_def spTaskCreate_body_def
      spTaskUpdate_body_def split: if_splits)

lemma body_no_failing:
  "first_failing (create_rules now p_title p_description p_dueDate p_priority) = None \<Longrightarrow>
   fst (spTaskCreate_body now d p_idAccount p_idUser p_title p_description p_dueDate
          p_priority)
     \<notin> Inl ` {titleRequired, titleTooShort, titleTooLong, descriptionTooLong,
                 dueDateInPast, invalidPriority, invalidStatus}"
  "first_failing (update_rules now p_title p_description p_dueDate p_priority p_status)
     = None \<Longrightarrow>
   fst (spTaskUpdate_body now d p_idAccount p_idUser p_idTask p_title p_description
          p_dueDate p_priority p_status)
     \<notin> Inl ` {titleRequired, titleTooShort, titleTooLong, descriptionTooLong,
                 dueDateInPast, invalidPriority, invalidStatus}"
  by (auto simp: create_rules_def update_rules_def spTaskCreate_body_def
      spTaskUpdate_body_def Let_def split: if_splits)

text \<open>On arguments within the declared sizes the conditions of the body are the rules
  \<open>ordered_create_rules\<close> and \<open>ordered_update_rules\<close>.\<close>

lemma ordered_rules:
  assumes "within_sizes p_title p_description"
  shows "first_failing (create_rules now p_title p_description p_dueDate p_priority)
      = first_failing (ordered_create_rules now p_title p_dueDate p_priority)"
    and "first_failing (update_rules now p_title p_description p_dueDate p_priority p_status)
      = first_failing (ordered_update_rules now p_title p_dueDate p_priority p_status)"
proof -
  have long: "\<not> title_long p_title" "\<not> description_long p_description"
    using bound_never_long(1) [of p_title] bound_never_long(2) [of p_description]
    by (simp_all add: bound_within_sizes [OF assms])
  have title: "title_missing p_title
      = (case p_title of None \<Rightarrow> True | Some t \<Rightarrow> only_spaces t)"
    "title_short p_title
      = (case p_title of None \<Rightarrow> False | Some t \<Rightarrow> stripped_length t < 3)"
    by (cases p_title; simp add: title_conditions; simp add: title_missing_def title_short_def)+
  have rest: "dueDate_past now p_dueDate
      = (case p_dueDate of None \<Rightarrow> False | Some dd \<Rightarrow> dd < CAST_AS_DATE now)"
    "not_between_0_and_2 n = (n < 0 \<or> 2 < n)" for n
    by (auto simp: dueDate_past_def not_between_0_and_2_def)
  show "first_failing (create_rules now p_title p_description p_dueDate p_priority)
      = first_failing (ordered_create_rules now p_title p_dueDate p_priority)"
    by (simp add: create_rules_def ordered_create_rules_def long title rest)
  show "first_failing (update_rules now p_title p_description p_dueDate p_priority p_status)
      = first_failing (ordered_update_rules now p_title p_dueDate p_priority p_status)"
    by (simp add: create_rules_def update_rules_def ordered_create_rules_def
        ordered_update_rules_def long title rest)
qed


text \<open>
  C4, for titles of at most 100 characters and descriptions of at most 1000: when a
  Create or an Update input violates validation rules, the one error reported is that of
  the first failing rule in the order titleRequired (the title is \<^verbatim>\<open>NULL\<close> or has only
  space characters), titleTooShort (fewer than 3 characters are left between the leading
  and the trailing spaces of the title), dueDateInPast, invalidPriority and, for Update
  only, invalidStatus; the database is left as it was. When none of these rules fails, no
  validation error is reported. What is reported for a longer title or description is left
  open.
\<close>

theorem validation_order:
  assumes "within_sizes p_title p_description"
  shows "(first_failing (ordered_create_rules now p_title p_dueDate p_priority) = Some e \<longrightarrow>
      spTaskCreate now d p_idAccount p_idUser p_title p_description p_dueDate p_priority
        = (Inl e, d))
   \<and> (first_failing (ordered_update_rules now p_title p_dueDate p_priority p_status)
        = Some e' \<longrightarrow>
      spTaskUpdate now d p_idAccount p_idUser p_idTask p_title p_description p_dueDate
        p_priority p_status = (Inl e', d))
   \<and> (first_failing (ordered_create_rules now p_title p_dueDate p_priority) = None \<longrightarrow>
      fst (spTaskCreate now d p_idAccount p_idUser p_title p_description p_dueDate
             p_priority)
        \<notin> Inl ` {titleRequired, titleTooShort, titleTooLong, descriptionTooLong,
                    dueDateInPast, invalidPriority, invalidStatus})
   \<and> (first_failing (ordered_update_rules now p_title p_dueDate p_priority p_status)
        = None \<longrightarrow>
      fst (spTaskUpdate now d p_idAccount p_idUser p_idTask p_title p_description p_dueDate
             p_priority p_status)
        \<notin> Inl ` {titleRequired, titleTooShort, titleTooLong, descriptionTooLong,
                    dueDateInPast, invalidPriority, invalidStatus})"
proof -
  note bound = bound_within_sizes [OF assms]
  note rules = ordered_rules [OF assms, symmetric]
  have create_first: "first_failing (ordered_create_rules now p_title p_dueDate p_priority)
        = Some e \<longrightarrow>
      spTaskCreate now d p_idAccount p_idUser p_title p_description p_dueDate p_priority
        = (Inl e, d)"
    unfolding rules spTaskCreate_def bound by (intro impI) (rule body_first_failing)
  have update_first: "first_failing (ordered_update_rules now p_title p_dueDate p_priority
        p_status) = Some e' \<longrightarrow>
      spTaskUpdate now d p_idAccount p_idUser p_idTask p_title p_description p_dueDate
        p_priority p_status = (Inl e', d)"
    unfolding rules spTaskUpdate_def bound by (intro impI) (rule body_first_failing)
  have create_none: "first_failing (ordered_create_rules now p_title p_dueDate p_priority)
        = None \<longrightarrow>
      fst (spTaskCreate now d p_idAccount p_idUser p_title p_description p_dueDate
             p_priority)
        \<notin> Inl ` {titleRequired, titleTooShort, titleTooLong, descriptionTooLong,
                    dueDateInPast, invalidPriority, invalidStatus}"
    unfolding rules spTaskCreate_def bound by (intro impI) (rule body_no_failing)
  have update_none: "first_failing (ordered_update_rules now p_title p_dueDate p_priority
        p_status) = None \<longrightarrow>
      fst (spTaskUpdate now d p_idAccount p_idUser p_idTask p_title p_description p_dueDate
             p_priority p_status)
        \<notin> Inl ` {titleRequired, titleTooShort, titleTooLong, descriptionTooLong,
                    dueDateInPast, invalidPriority, invalidStatus}"
    unfolding rules spTaskUpdate_def bound by (intro impI) (rule body_no_failing)
  show ?thesis
    by (intro conjI create_first update_first create_none update_none)
qed

theorem validation_order_witness:
  "within_sizes (Some '' ab '') None
   \<and> first_failing (ordered_create_rules noon (Some '' ab '') (Some 19999) 7)
       = Some titleTooShort
   \<and> spTaskCreate noon db1 1 1 (Some '' ab '') None (Some 19999) 7 = (Inl titleTooShort, db1)
   \<and> within_sizes (Some ''Buy milk'') None
   \<and> first_failing (ordered_update_rules noon (Some ''Buy milk'') (Some 19999) 7 9)
       = Some dueDateInPast
   \<and> spTaskUpdate noon db1 1 1 1 (Some ''Buy milk'') None (Some 19999) 7 9
       = (Inl dueDateInPast, db1)"
proof -
  have wc: "within_sizes (Some '' ab '') None"
    and wu: "within_sizes (Some ''Buy milk'') None"
    by (simp_all add: within_sizes_def)
  have c: "first_failing (ordered_create_rules noon (Some '' ab '') (Some 19999) 7)
      = Some titleTooShort"
    by (simp add: ordered_create_rules_def only_spaces_def stripped_length_def)
  have u: "first_failing (ordered_update_rules noon (Some ''Buy milk'') (Some 19999) 7 9)
      = Some dueDateInPast"
    by (simp add: ordered_update_rules_def ordered_create_rules_def only_spaces_def
        stripped_length_def CAST_AS_DATE_def noon_def)
  note c' = validation_order [OF wc, THEN conjunct1, rule_format, OF c, of db1 1 1]
  note u' = validation_order [OF wu, THEN conjunct2, THEN conjunct1, rule_format, OF u,
      of db1 1 1 1]
  show ?thesis
    by (intro conjI wc c c' wu u u')
qed

lemma trim_replicate:
  assumes "x \<noteq> CHR '' ''"
  shows "RTRIM (replicate n x) = replicate n x" "LTRIM (replicate n x) = replicate n x"
proof -
  have "dropWhile (\<lambda>c. c = CHR '' '') (replicate n x) = replicate n x"
    using assms by (cases n) simp_all
  then show "RTRIM (replicate n x) = replicate n x" "LTRIM (replicate n x) = replicate n x"
    by (simp_all add: RTRIM_def LTRIM_def)
qed

lemma trim_whitespace_replicate:
  assumes "\<not> whitespace x"
  shows "trim_whitespace (replicate n x) = replicate n x"
proof -
  have "dropWhile whitespace (replicate n x) = replicate n x"
    using assms by (cases n) simp_all
  then show ?thesis by (simp add: trim_whitespace_def)
qed

text \<open>
  C4 as stated fails on two inputs with the invalid priority 7. A title of 101 letters
  violates the rule titleTooLong of the specification, and a title of two tabs and one
  letter violates its rule titleTooShort; in both cases the procedure reports
  invalidPriority. The first title reaches the body cut to 100 letters; the tabs of the
  second are not trimmed.
\<close>

theorem validation_order_counterexample:
  "first_failing (specified_create_rules noon (Some (replicate 101 (CHR ''a''))) None None 7)
     = Some titleTooLong
   \<and> spTaskCreate noon db1 1 1 (Some (replicate 101 (CHR ''a''))) None None 7
       = (Inl invalidPriority, db1)
   \<and> first_failing
        (specified_create_rules noon (Some [CHR 0x09, CHR 0x09, CHR ''a'']) None None 7)
       = Some titleTooShort
   \<and> spTaskCreate noon db1 1 1 (Some [CHR 0x09, CHR 0x09, CHR ''a'']) None None 7
       = (Inl invalidPriority, db1)"
proof -
  have a: "CHR ''a'' \<noteq> CHR '' ''" "\<not> whitespace (CHR ''a'')"
    by (simp_all add: whitespace_def)
  have long_spec: "first_failing
      (specified_create_rules noon (Some (replicate 101 (CHR ''a''))) None None 7)
      = Some titleTooLong"
    by (simp add: specified_create_rules_def trim_whitespace_replicate [OF a(2)])
  have bound: "nvarchar 100 (Some (replicate 101 (CHR ''a''))) = Some (replicate 100 (CHR ''a''))"
    by (simp add: nvarchar_def)
  have long_code: "spTaskCreate noon db1 1 1 (Some (replicate 101 (CHR ''a''))) None None 7
      = (Inl invalidPriority, db1)"
    unfolding spTaskCreate_def bound
    by (simp add: spTaskCreate_body_def sp_conds LEN_def str_eq_def trim_replicate [OF a(1)]
        RTRIM_unchanged nvarchar_def)
  have tab_spec: "first_failing
      (specified_create_rules noon (Some [CHR 0x09, CHR 0x09, CHR ''a'']) None None 7)
      = Some titleTooShort"
    by (simp add: specified_create_rules_def trim_whitespace_def whitespace_def)
  have tab_code: "spTaskCreate noon db1 1 1 (Some [CHR 0x09, CHR 0x09, CHR ''a'']) None None 7
      = (Inl invalidPriority, db1)"
    by (simp add: spTaskCreate_def spTaskCreate_body_def nvarchar_def sp_conds sql_builtins)
  show ?thesis
    by (intro conjI long_spec long_code tab_spec tab_code)
qed


section \<open>Create and read back\<close>

lemma no_match_of_fresh:
  "identity_ok d \<Longrightarrow> filter (task_matches a u (ident d)) (tasks d) = []"
  by (auto simp: identity_ok_def task_matches_def filter_empty_conv)


lemma get_new_row:
  assumes fresh: "identity_ok d"
    and g: "account_exists d p_idAccount" "user_exists d p_idAccount p_idUser"
    and row: "idTask row = ident d" "idAccount row = p_idAccount" "idUser row = p_idUser"
      "\<not> deleted row"
  shows "taskGet (d\<lparr> tasks := tasks d @ [row], ident := ident d + 1 \<rparr>) p_idAccount p_idUser
      (ident d) = Inr (Some (select_columns row))"
proof -
  let ?d' = "d\<lparr> tasks := tasks d @ [row], ident := ident d + 1 \<rparr>"
  have g': "account_exists ?d' p_idAccount" "user_exists ?d' p_idAccount p_idUser"
    using g by (simp_all add: account_exists_def user_exists_def)
  have m: "task_matches p_idAccount p_idUser (ident d) row"
    using row by (simp add: task_matches_def)
  have "filter (task_matches p_idAccount p_idUser (ident d)) (tasks ?d') = [row]"
    using no_match_of_fresh [OF fresh, of p_idAccount p_idUser] m by simp
  moreover have "task_exists ?d' p_idAccount p_idUser (ident d)"
    using m by (auto simp: task_exists_def)
  ultimately show ?thesis
    using g' by (simp add: taskGet_def spTaskGet_def)
qed

text \<open>
  C5, with the trimming the procedure does: a Create whose title has at most 100
  characters, at least 3 of them between its leading and trailing spaces, whose
  description has at most 1000 characters, whose due date is absent or not before the
  calendar date of the call, whose priority is 0, 1 or 2 and whose account and user pass
  the tenancy guard stores a new row with status 0 (pending), deleted false, the title of
  the input without its leading and trailing space characters, and equal creation and
  modification times. A Get of the returned id by the same account and user yields one
  record with that id, that title, the description, due date and priority of the input,
  status 0 and the creation time as both of its times. The identity value is assumed to
  be above every id of the table.
\<close>

theorem create_round_trip:
  assumes size: "length t \<le> 100" and content: "3 \<le> stripped_length t"
    and desc: "case p_description of None \<Rightarrow> True | Some s \<Rightarrow> length s \<le> 1000"
    and due: "case p_dueDate of None \<Rightarrow> True | Some dd \<Rightarrow> CAST_AS_DATE now \<le> dd"
    and prio: "0 \<le> p_priority" "p_priority \<le> 2"
    and guard: "tenancy_guard d p_idAccount p_idUser = None"
    and fresh: "identity_ok d"
  shows "\<exists>row d' e.
           spTaskCreate now d p_idAccount p_idUser (Some t) p_description p_dueDate p_priority
             = (Inr (idTask row), d')
         \<and> tasks d' = tasks d @ [row]
         \<and> status row = 0 \<and> \<not> deleted row
         \<and> (\<exists>l r. t = l @ title row @ r \<and> set l \<subseteq> {CHR '' ''} \<and> set r \<subseteq> {CHR '' ''})
         \<and> title row \<noteq> [] \<and> hd (title row) \<noteq> CHR '' '' \<and> last (title row) \<noteq> CHR '' ''
         \<and> dateCreated row = now \<and> dateModified row = now
         \<and> description row = p_description \<and> dueDate row = p_dueDate
         \<and> priority row = p_priority
         \<and> idAccount row = p_idAccount \<and> idUser row = p_idUser
         \<and> taskGet d' p_idAccount p_idUser (idTask row) = Inr (Some e)
         \<and> idTask e = idTask row \<and> title e = title row
         \<and> description e = p_description \<and> dueDate e = p_dueDate
         \<and> priority e = p_priority \<and> status e = 0
         \<and> dateCreated e = now \<and> dateModified e = dateCreated e"
proof -
  define row :: task where
    "row = \<lparr> idTask = ident d, title = LTRIM (RTRIM t), description = p_description,
             dueDate = p_dueDate, priority = p_priority, status = 0, dateCreated = now,
             dateModified = now, idAccount = p_idAccount, idUser = p_idUser,
             deleted = False \<rparr>"
  define d' where "d' = d\<lparr> tasks := tasks d @ [row], ident := ident d + 1 \<rparr>"
  define e where "e = select_columns row"
  have sizes: "within_sizes (Some t) p_description"
    using size desc by (simp add: within_sizes_def)
  note bound = bound_within_sizes [OF sizes]
  have "first_failing (ordered_create_rules now (Some t) p_dueDate p_priority) = None"
  proof -
    have "\<not> only_spaces t"
      using content length_trimmed [of t] trimmed_empty [of t] by auto
    moreover have "\<not> (case p_dueDate of None \<Rightarrow> False | Some dd \<Rightarrow> dd < CAST_AS_DATE now)"
      using due by (cases p_dueDate) simp_all
    ultimately show ?thesis
      using content prio by (simp add: ordered_create_rules_def)
  qed
  then have "first_failing (create_rules now (Some t) p_description p_dueDate p_priority)
      = None"
    by (simp add: ordered_rules(1) [OF sizes])
  then have conds: "\<not> title_missing (Some t)" "\<not> title_short (Some t)"
    "\<not> title_long (Some t)" "\<not> description_long p_description"
    "\<not> dueDate_past now p_dueDate" "\<not> not_between_0_and_2 p_priority"
    by (simp_all add: body_rules)
  have g: "account_exists d p_idAccount" "user_exists d p_idAccount p_idUser"
    using guard by (auto simp: tenancy_guard_def split: if_splits)
  have create: "spTaskCreate now d p_idAccount p_idUser (Some t) p_description p_dueDate
      p_priority = (Inr (idTask row), d')"
    unfolding spTaskCreate_def bound
    using conds g by (simp add: spTaskCreate_body_def row_def d'_def Let_def)
  have ne: "title row \<noteq> []"
    using content length_trimmed [of t] by (auto simp: row_def)
  obtain l r where lr: "t = l @ title row @ r" "set l \<subseteq> {CHR '' ''}" "set r \<subseteq> {CHR '' ''}"
    "hd (title row) \<noteq> CHR '' ''" "last (title row) \<noteq> CHR '' ''"
    using trim_spaces [of t] ne by (auto simp: row_def)
  have split: "\<exists>l r. t = l @ title row @ r \<and> set l \<subseteq> {CHR '' ''} \<and> set r \<subseteq> {CHR '' ''}"
    using lr(1,2,3) by (intro exI conjI)
  have get: "taskGet d' p_idAccount p_idUser (idTask row) = Inr (Some e)"
  proof -
    have "taskGet d' p_idAccount p_idUser (ident d) = Inr (Some (select_columns row))"
      unfolding d'_def by (rule get_new_row [OF fresh g]) (simp_all add: row_def)
    then show ?thesis by (simp add: e_def row_def)
  qed
  have fields: "tasks d' = tasks d @ [row]" "status row = 0" "\<not> deleted row"
    "dateCreated row = now" "dateModified row = now" "description row = p_description"
    "dueDate row = p_dueDate" "priority row = p_priority" "idAccount row = p_idAccount"
    "idUser row = p_idUser"
    by (simp_all add: row_def d'_def)
  have read: "idTask e = idTask row" "title e = title row" "description e = p_description"
    "dueDate e = p_dueDate" "priority e = p_priority" "status e = 0" "dateCreated e = now"
    "dateModified e = dateCreated e"
    by (simp_all add: e_def select_columns_def row_def)
  show ?thesis
    apply (rule exI [of _ row])
    apply (rule exI [of _ d'])
    apply (rule exI [of _ e])
    apply (intro conjI)
    using create fields split ne lr(4,5) get read by simp_all
qed

theorem create_round_trip_witness:
  "length ''  Buy milk '' \<le> 100 \<and> 3 \<le> stripped_length ''  Buy milk ''
   \<and> CAST_AS_DATE noon \<le> 20003
   \<and> tenancy_guard db1 1 1 = None \<and> identity_ok db1
   \<and> (\<exists>row d' e.
         spTaskCreate noon db1 1 1 (Some ''  Buy milk '') (Some ''2 litres'') (Some 20003) 2
           = (Inr (idTask row), d')
         \<and> tasks d' = tasks db1 @ [row]
         \<and> status row = 0 \<and> \<not> deleted row
         \<and> (\<exists>l r. ''  Buy milk '' = l @ title row @ r
               \<and> set l \<subseteq> {CHR '' ''} \<and> set r \<subseteq> {CHR '' ''})
         \<and> title row \<noteq> [] \<and> hd (title row) \<noteq> CHR '' '' \<and> last (title row) \<noteq> CHR '' ''
         \<and> dateCreated row = noon \<and> dateModified row = noon
         \<and> description row = Some ''2 litres'' \<and> dueDate row = Some 20003
         \<and> priority row = 2
         \<and> idAccount row = 1 \<and> idUser row = 1
         \<and> taskGet d' 1 1 (idTask row) = Inr (Some e)
         \<and> idTask e = idTask row \<and> title e = title row
         \<and> description e = Some ''2 litres'' \<and> dueDate e = Some 20003
         \<and> priority e = 2 \<and> status e = 0
         \<and> dateCreated e = noon \<and> dateModified e = dateCreated e)
   \<and> taskGet (snd (spTaskCreate noon db1 1 1 (Some ''  Buy milk '') (Some ''2 litres'')
                     (Some 20003) 2)) 1 1 5
       = Inr (Some \<lparr> idTask = 5, title = ''Buy milk'', description = Some ''2 litres'',
                      dueDate = Some 20003, priority = 2, status = 0, dateCreated = noon,
                      dateModified = noon \<rparr>)"
proof -
  have size: "length ''  Buy milk '' \<le> 100" by simp
  have content: "3 \<le> stripped_length ''  Buy milk ''" by (simp add: stripped_length_def)
  have desc: "case Some ''2 litres'' of None \<Rightarrow> True | Some s \<Rightarrow> length s \<le> 1000" by simp
  have today: "CAST_AS_DATE noon \<le> 20003" by (simp add: CAST_AS_DATE_def noon_def)
  then have due: "case Some 20003 of None \<Rightarrow> True | Some dd \<Rightarrow> CAST_AS_DATE noon \<le> dd"
    by simp
  have prio: "(0::int) \<le> 2" "(2::int) \<le> 2" by simp_all
  have g: "tenancy_guard db1 1 1 = None"
    by (simp add: tenancy_guard_def account_exists_def user_exists_def db1_def)
  have f: "identity_ok db1"
    by (simp add: identity_ok_def db1_rows)
  have run: "taskGet (snd (spTaskCreate noon db1 1 1 (Some ''  Buy milk '')
      (Some ''2 litres'') (Some 20003) 2)) 1 1 5
       = Inr (Some \<lparr> idTask = 5, title = ''Buy milk'', description = Some ''2 litres'',
                      dueDate = Some 20003, priority = 2, status = 0, dateCreated = noon,
                      dateModified = noon \<rparr>)"
    by (simp add: spTaskCreate_def spTaskCreate_body_def nvarchar_def sp_conds sql_builtins
        account_exists_def user_exists_def taskGet_def spTaskGet_def task_exists_def
        task_matches_def select_columns_def db1_rows noon_def)
  show ?thesis
    by (intro conjI size content today g f run
        create_round_trip [OF size content desc due prio g f])
qed

text \<open>
  C5 as stated trims whitespace. A title that starts with a tab passes every rule of the
  specification, and is stored and read back with its tab.
\<close>

theorem create_round_trip_counterexample:
  "first_failing (specified_create_rules noon (Some (CHR 0x09 # ''Buy milk'')) None None 2)
     = None
   \<and> trim_whitespace (CHR 0x09 # ''Buy milk'') = ''Buy milk''
   \<and> fst (spTaskCreate noon db1 1 1 (Some (CHR 0x09 # ''Buy milk'')) None None 2) = Inr 5
   \<and> map title (tasks (snd (spTaskCreate noon db1 1 1 (Some (CHR 0x09 # ''Buy milk'')) None
                              None 2)))
       = map title (tasks db1) @ [CHR 0x09 # ''Buy milk'']
   \<and> taskGet (snd (spTaskCreate noon db1 1 1 (Some (CHR 0x09 # ''Buy milk'')) None None 2))
        1 1 5
       = Inr (Some \<lparr> idTask = 5, title = CHR 0x09 # ''Buy milk'', description = None,
                      dueDate = None, priority = 2, status = 0, dateCreated = noon,
                      dateModified = noon \<rparr>)
   \<and> CHR 0x09 # ''Buy milk'' \<noteq> trim_whitespace (CHR 0x09 # ''Buy milk'')"
proof -
  have trimmed: "trim_whitespace (CHR 0x09 # ''Buy milk'') = ''Buy milk''"
    by (simp add: trim_whitespace_def whitespace_def)
  have valid: "first_failing
      (specified_create_rules noon (Some (CHR 0x09 # ''Buy milk'')) None None 2) = None"
    by (simp add: specified_create_rules_def trimmed)
  have run: "spTaskCreate noon db1 1 1 (Some (CHR 0x09 # ''Buy milk'')) None None 2
      = (Inr 5, db1\<lparr> tasks := tasks db1 @
           [\<lparr> idTask = 5, title = CHR 0x09 # ''Buy milk'', description = None,
              dueDate = None, priority = 2, status = 0, dateCreated = noon,
              dateModified = noon, idAccount = 1, idUser = 1, deleted = False \<rparr>],
           ident := 6 \<rparr>)"
    by (simp add: spTaskCreate_def spTaskCreate_body_def nvarchar_def sp_conds sql_builtins
        account_exists_def user_exists_def db1_def)
  have get: "taskGet (snd (spTaskCreate noon db1 1 1 (Some (CHR 0x09 # ''Buy milk'')) None
      None 2)) 1 1 5
       = Inr (Some \<lparr> idTask = 5, title = CHR 0x09 # ''Buy milk'', description = None,
                      dueDate = None, priority = 2, status = 0, dateCreated = noon,
                      dateModified = noon \<rparr>)"
    unfolding run
    by (simp add: taskGet_def spTaskGet_def account_exists_def user_exists_def
        task_exists_def task_matches_def select_columns_def db1_rows)
  have differ: "CHR 0x09 # ''Buy milk'' \<noteq> trim_whitespace (CHR 0x09 # ''Buy milk'')"
    unfolding trimmed by simp
  show ?thesis
    unfolding run by (intro conjI valid trimmed differ get [unfolded run]) simp_all
qed

section \<open>Calls whose arguments pass the rules\<close>

lemma update_rules_pass:
  assumes "first_failing (update_rules now p_title p_description p_dueDate p_priority
      p_status) = None"
  shows "spTaskUpdate now d p_idAccount p_idUser p_idTask p_title p_description p_dueDate
      p_priority p_status =
    (if \<not> task_exists d p_idAccount p_idUser p_idTask then (Inl taskDoesntExist, d)
     else (Inr p_idTask,
           d\<lparr> tasks :=
                map (\<lambda>tsk. if task_matches p_idAccount p_idUser p_idTask tsk
                           then update_row now (nvarchar 100 p_title)
                                  (nvarchar 1000 p_description) p_dueDate p_priority
                                  p_status tsk
                           else tsk)
                    (tasks d) \<rparr>))"
  using bound_rules(2) [OF assms]
  by (simp add: spTaskUpdate_def spTaskUpdate_body_def body_rules)

lemma create_rules_pass:
  assumes "first_failing (create_rules now p_title p_description p_dueDate p_priority)
      = None"
  shows "spTaskCreate now d p_idAccount p_idUser p_title p_description p_dueDate p_priority =
    (if \<not> account_exists d p_idAccount then (Inl accountDoesntExist, d)
     else if \<not> user_exists d p_idAccount p_idUser then (Inl userDoesntExist, d)
     else (Inr (ident d),
           d\<lparr> tasks := tasks d @
                  [\<lparr> idTask = ident d,
                     title = (case nvarchar 100 p_title of None \<Rightarrow> []
                              | Some t \<Rightarrow> LTRIM (RTRIM t)),
                     description = nvarchar 1000 p_description,
                     dueDate = p_dueDate,
                     priority = p_priority,
                     status = 0,
                     dateCreated = now,
                     dateModified = now,
                     idAccount = p_idAccount,
                     idUser = p_idUser,
                     deleted = False \<rparr>],
                ident := ident d + 1 \<rparr>))"
  using bound_rules(1) [OF assms]
  by (simp add: spTaskCreate_def spTaskCreate_body_def body_rules Let_def)

section \<open>Invariants of the task table\<close>

text \<open>The empty database satisfies the primary key and the identity invariant, and the
  three mutating procedures keep both, whatever their outcome.\<close>

lemma invariants_db0: "pkTask db0 \<and> identity_ok db0"
  by (simp add: pkTask_def identity_ok_def db0_def)

lemma invariants_spTaskCreate:
  assumes "pkTask d" "identity_ok d"
  shows "pkTask (snd (spTaskCreate now d p_idAccount p_idUser p_title p_description
            p_dueDate p_priority))
    \<and> identity_ok (snd (spTaskCreate now d p_idAccount p_idUser p_title p_description
            p_dueDate p_priority))"
proof -
  have "ident d \<notin> idTask ` set (tasks d)"
    using assms(2) by (auto simp: identity_ok_def)
  then show ?thesis
    using assms
    by (auto simp: spTaskCreate_def spTaskCreate_body_def Let_def pkTask_def identity_ok_def)
qed

lemma idTask_update_rows:
  "idTask \<circ> (\<lambda>tsk. if P tsk
       then update_row now p_title p_description p_dueDate p_priority p_status tsk
       else tsk) = idTask"
  by (auto simp: fun_eq_iff update_row_def)

lemma idTask_delete_rows:
  "idTask \<circ> (\<lambda>tsk. if P tsk then tsk\<lparr> deleted := True, dateModified := now \<rparr> else tsk)
     = idTask"
  by (auto simp: fun_eq_iff)

lemma identity_ok_ids:
  "identity_ok d \<longleftrightarrow> 0 < ident d \<and> (\<forall>i \<in> set (map idTask (tasks d)). i < ident d)"
  by (simp add: identity_ok_def)

lemma invariants_spTaskUpdate:
  assumes "pkTask d" "identity_ok d"
  shows "pkTask (snd (spTaskUpdate now d p_idAccount p_idUser p_idTask p_title
            p_description p_dueDate p_priority p_status))
    \<and> identity_ok (snd (spTaskUpdate now d p_idAccount p_idUser p_idTask p_title
            p_description p_dueDate p_priority p_status))"
  using assms unfolding identity_ok_ids pkTask_def
  by (simp add: spTaskUpdate_def spTaskUpdate_body_def idTask_update_rows del: set_map)

lemma invariants_spTaskDelete:
  assumes "pkTask d" "identity_ok d"
  shows "pkTask (snd (spTaskDelete now d p_idAccount p_idUser p_idTask))
    \<and> identity_ok (snd (spTaskDelete now d p_idAccount p_idUser p_idTask))"
  using assms unfolding identity_ok_ids pkTask_def
  by (simp add: spTaskDelete_def idTask_delete_rows del: set_map)

section \<open>What Update leaves alone\<close>

text \<open>
  C9: whatever its input and its outcome, Update keeps the number and the order of the
  rows, and in every row the columns idTask, idAccount, idUser, dateCreated and deleted;
  a row that the \<^verbatim>\<open>WHERE\<close> clause does not match is kept whole, so only title,
  description, dueDate, priority, status and dateModified of the matched row can change.
  The account and user tables and the identity value are kept too.
\<close>

theorem update_frame:
  "length (tasks (snd (spTaskUpdate now d p_idAccount p_idUser p_idTask p_title p_description
       p_dueDate p_priority p_status))) = length (tasks d)
   \<and> (\<forall>k < length (tasks d).
        idTask (tasks (snd (spTaskUpdate now d p_idAccount p_idUser p_idTask p_title
           p_description p_dueDate p_priority p_status)) ! k) = idTask (tasks d ! k)
      \<and> idAccount (tasks (snd (spTaskUpdate now d p_idAccount p_idUser p_idTask p_title
           p_description p_dueDate p_priority p_status)) ! k) = idAccount (tasks d ! k)
      \<and> idUser (tasks (snd (spTaskUpdate now d p_idAccount p_idUser p_idTask p_title
           p_description p_dueDate p_priority p_status)) ! k) = idUser (tasks d ! k)
      \<and> dateCreated (tasks (snd (spTaskUpdate now d p_idAccount p_idUser p_idTask p_title
           p_description p_dueDate p_priority p_status)) ! k) = dateCreated (tasks d ! k)
      \<and> deleted (tasks (snd (spTaskUpdate now d p_idAccount p_idUser p_idTask p_title
           p_description p_dueDate p_priority p_status)) ! k) = deleted (tasks d ! k)
      \<and> (\<not> task_matches p_idAccount p_idUser p_idTask (tasks d ! k) \<longrightarrow>
           tasks (snd (spTaskUpdate now d p_idAccount p_idUser p_idTask p_title
             p_description p_dueDate p_priority p_status)) ! k = tasks d ! k))
   \<and> accounts (snd (spTaskUpdate now d p_idAccount p_idUser p_idTask p_title p_description
       p_dueDate p_priority p_status)) = accounts d
   \<and> users (snd (spTaskUpdate now d p_idAccount p_idUser p_idTask p_title p_description
       p_dueDate p_priority p_status)) = users d
   \<and> ident (snd (spTaskUpdate now d p_idAccount p_idUser p_idTask p_title p_description
       p_dueDate p_priority p_status)) = ident d"
  by (simp add: spTaskUpdate_def spTaskUpdate_body_def update_row_def)

theorem update_frame_witness:
  "fst (spTaskUpdate noon db1 1 1 2 (Some '' New title '') None None 2 2) = Inr 2
   \<and> title (tasks (snd (spTaskUpdate noon db1 1 1 2 (Some '' New title '') None None 2 2)) ! 1)
       = ''New title''
   \<and> dateModified
        (tasks (snd (spTaskUpdate noon db1 1 1 2 (Some '' New title '') None None 2 2)) ! 1)
       = noon
   \<and> idTask (tasks (snd (spTaskUpdate noon db1 1 1 2 (Some '' New title '') None None 2 2)) ! 1)
       = 2
   \<and> idAccount
        (tasks (snd (spTaskUpdate noon db1 1 1 2 (Some '' New title '') None None 2 2)) ! 1) = 1
   \<and> idUser
        (tasks (snd (spTaskUpdate noon db1 1 1 2 (Some '' New title '') None None 2 2)) ! 1) = 1
   \<and> dateCreated
        (tasks (snd (spTaskUpdate noon db1 1 1 2 (Some '' New title '') None None 2 2)) ! 1)
       = 2000
   \<and> tasks (snd (spTaskUpdate noon db1 1 1 2 (Some '' New title '') None None 2 2)) ! 3
       = task4"
proof -
  let ?d = "snd (spTaskUpdate noon db1 1 1 2 (Some '' New title '') None None 2 2)"
  have run: "spTaskUpdate noon db1 1 1 2 (Some '' New title '') None None 2 2 =
      (Inr 2, db1\<lparr> tasks := [task1,
          update_row noon (Some '' New title '') None None 2 2 task2, task3, task4] \<rparr>)"
    by (simp add: spTaskUpdate_def spTaskUpdate_body_def nvarchar_def sp_conds sql_builtins
        task_exists_def task_matches_def
        db1_rows)
  have changed: "title (tasks ?d ! 1) = ''New title''" "dateModified (tasks ?d ! 1) = noon"
    by (simp_all add: run update_row_def sql_builtins)
  have rows: "tasks db1 ! 1 = task2" "tasks db1 ! 3 = task4" "length (tasks db1) = 4"
    by (simp_all add: db1_def)
  have other: "\<not> task_matches 1 1 2 task4"
    by (simp add: task_matches_def db1_rows)
  note frame = update_frame [of noon db1 1 1 2 "Some '' New title ''" None None 2 2,
      THEN conjunct2, THEN conjunct1, rule_format]
  have k1: "(1::nat) < length (tasks db1)" and k3: "(3::nat) < length (tasks db1)"
    by (simp_all add: rows)
  note frame1 = frame [OF k1, unfolded rows]
  note frame3 = frame [OF k3, unfolded rows]
  have f1: "idTask (tasks ?d ! 1) = 2" "idAccount (tasks ?d ! 1) = 1"
    "idUser (tasks ?d ! 1) = 1" "dateCreated (tasks ?d ! 1) = 2000"
    using frame1 by (simp_all add: task2_def)
  have f3: "tasks ?d ! 3 = task4"
    using frame3 other by simp
  show ?thesis using run changed f1 f3 by simp
qed

section \<open>Which procedure checks the tenancy\<close>

text \<open>
  C6: Update never reports accountDoesntExist or userDoesntExist; once its validation
  rules pass it reports taskDoesntExist exactly when no row that is not deleted matches
  idTask, idAccount and idUser together, and succeeds otherwise. Create, once its
  validation rules pass, and Get, List and Delete from their first statement, report the
  error of the tenancy guard (accountDoesntExist, else userDoesntExist) before anything
  else and leave the database as it was.
\<close>

theorem tenancy_asymmetry:
  "fst (spTaskUpdate now d p_idAccount p_idUser p_idTask p_title p_description p_dueDate
          p_priority p_status) \<noteq> Inl accountDoesntExist
   \<and> fst (spTaskUpdate now d p_idAccount p_idUser p_idTask p_title p_description p_dueDate
          p_priority p_status) \<noteq> Inl userDoesntExist
   \<and> (first_failing (update_rules now p_title p_description p_dueDate p_priority p_status)
         = None \<longrightarrow>
        (fst (spTaskUpdate now d p_idAccount p_idUser p_idTask p_title p_description
                p_dueDate p_priority p_status) = Inl taskDoesntExist
           \<longleftrightarrow> \<not> (\<exists>tsk \<in> set (tasks d). idTask tsk = p_idTask
                    \<and> idAccount tsk = p_idAccount \<and> idUser tsk = p_idUser \<and> \<not> deleted tsk))
        \<and> ((\<exists>tsk \<in> set (tasks d). idTask tsk = p_idTask
                    \<and> idAccount tsk = p_idAccount \<and> idUser tsk = p_idUser \<and> \<not> deleted tsk)
           \<longrightarrow> fst (spTaskUpdate now d p_idAccount p_idUser p_idTask p_title p_description
                p_dueDate p_priority p_status) = Inr p_idTask))
   \<and> (first_failing (create_rules now p_title p_description p_dueDate p_priority) = None
        \<and> tenancy_guard d p_idAccount p_idUser = Some g \<longrightarrow>
        spTaskCreate now d p_idAccount p_idUser p_title p_description p_dueDate p_priority
          = (Inl g, d))
   \<and> (tenancy_guard d p_idAccount p_idUser = Some g \<longrightarrow>
        spTaskGet d p_idAccount p_idUser p_idTask = Inl g
        \<and> spTaskList d p_idAccount p_idUser f_status f_priority = Inl g
        \<and> spTaskDelete now d p_idAccount p_idUser p_idTask = (Inl g, d))"
proof -
  have upd_err: "fst (spTaskUpdate now d p_idAccount p_idUser p_idTask p_title p_description
      p_dueDate p_priority p_status) \<noteq> Inl accountDoesntExist
    \<and> fst (spTaskUpdate now d p_idAccount p_idUser p_idTask p_title p_description p_dueDate
      p_priority p_status) \<noteq> Inl userDoesntExist"
    by (simp add: spTaskUpdate_def spTaskUpdate_body_def)
  have upd: "first_failing (update_rules now p_title p_description p_dueDate p_priority
        p_status) = None \<longrightarrow>
      (fst (spTaskUpdate now d p_idAccount p_idUser p_idTask p_title p_description
                p_dueDate p_priority p_status) = Inl taskDoesntExist
           \<longleftrightarrow> \<not> (\<exists>tsk \<in> set (tasks d). idTask tsk = p_idTask
                    \<and> idAccount tsk = p_idAccount \<and> idUser tsk = p_idUser \<and> \<not> deleted tsk))
        \<and> ((\<exists>tsk \<in> set (tasks d). idTask tsk = p_idTask
                    \<and> idAccount tsk = p_idAccount \<and> idUser tsk = p_idUser \<and> \<not> deleted tsk)
           \<longrightarrow> fst (spTaskUpdate now d p_idAccount p_idUser p_idTask p_title p_description
                p_dueDate p_priority p_status) = Inr p_idTask)"
    by (simp add: update_rules_pass task_exists_def task_matches_def)
  have cre: "first_failing (create_rules now p_title p_description p_dueDate p_priority) = None
        \<and> tenancy_guard d p_idAccount p_idUser = Some g \<longrightarrow>
        spTaskCreate now d p_idAccount p_idUser p_title p_description p_dueDate p_priority
          = (Inl g, d)"
    by (auto simp: create_rules_pass tenancy_guard_def split: if_splits)
  have rest: "tenancy_guard d p_idAccount p_idUser = Some g \<longrightarrow>
        spTaskGet d p_idAccount p_idUser p_idTask = Inl g
        \<and> spTaskList d p_idAccount p_idUser f_status f_priority = Inl g
        \<and> spTaskDelete now d p_idAccount p_idUser p_idTask = (Inl g, d)"
    by (auto simp: spTaskGet_def spTaskList_def spTaskDelete_def tenancy_guard_def
        split: if_splits)
  show ?thesis
    by (rule conjI [OF conjunct1 [OF upd_err]
          conjI [OF conjunct2 [OF upd_err] conjI [OF upd conjI [OF cre rest]]]])
qed

theorem tenancy_asymmetry_witness:
  "first_failing (update_rules noon (Some ''Buy milk'') None None 1 1) = None
   \<and> tenancy_guard db1 9 9 = Some accountDoesntExist
   \<and> tenancy_guard db1 1 2 = Some userDoesntExist
   \<and> fst (spTaskUpdate noon db1 9 9 1 (Some ''Buy milk'') None None 1 1) = Inl taskDoesntExist
   \<and> fst (spTaskUpdate noon db1 1 1 1 (Some ''Buy milk'') None None 1 1) = Inr 1
   \<and> spTaskCreate noon db1 9 9 (Some ''Buy milk'') None None 1 = (Inl accountDoesntExist, db1)
   \<and> spTaskCreate noon db1 1 2 (Some ''Buy milk'') None None 1 = (Inl userDoesntExist, db1)
   \<and> spTaskGet db1 9 9 1 = Inl accountDoesntExist
   \<and> spTaskList db1 1 2 None None = Inl userDoesntExist
   \<and> spTaskDelete noon db1 9 9 1 = (Inl accountDoesntExist, db1)"
proof -
  have u: "first_failing (update_rules noon (Some ''Buy milk'') None None 1 1) = None"
    by (simp add: update_rules_def create_rules_def sp_conds sql_builtins)
  have c: "first_failing (create_rules noon (Some ''Buy milk'') None None 1) = None"
    by (simp add: create_rules_def sp_conds sql_builtins)
  have ga: "tenancy_guard db1 9 9 = Some accountDoesntExist"
    by (simp add: tenancy_guard_def account_exists_def db1_def)
  have gu: "tenancy_guard db1 1 2 = Some userDoesntExist"
    by (simp add: tenancy_guard_def account_exists_def user_exists_def db1_def)
  have none: "\<not> (\<exists>tsk \<in> set (tasks db1). idTask tsk = 1 \<and> idAccount tsk = 9
      \<and> idUser tsk = 9 \<and> \<not> deleted tsk)"
    by (simp add: db1_rows)
  have some: "\<exists>tsk \<in> set (tasks db1). idTask tsk = 1 \<and> idAccount tsk = 1
      \<and> idUser tsk = 1 \<and> \<not> deleted tsk"
    by (simp add: db1_rows)
  note upd99 = tenancy_asymmetry [of noon db1 9 9 1 "Some ''Buy milk''" None None 1 1,
      THEN conjunct2, THEN conjunct2, THEN conjunct1, rule_format, OF u]
  note upd11 = tenancy_asymmetry [of noon db1 1 1 1 "Some ''Buy milk''" None None 1 1,
      THEN conjunct2, THEN conjunct2, THEN conjunct1, rule_format, OF u]
  note cre99 = tenancy_asymmetry [of noon db1 9 9 1 "Some ''Buy milk''" None None 1 1
      accountDoesntExist,
      THEN conjunct2, THEN conjunct2, THEN conjunct2, THEN conjunct1, rule_format,
      OF conjI [OF c ga]]
  note cre12 = tenancy_asymmetry [of noon db1 1 2 1 "Some ''Buy milk''" None None 1 1
      userDoesntExist,
      THEN conjunct2, THEN conjunct2, THEN conjunct2, THEN conjunct1, rule_format,
      OF conjI [OF c gu]]
  note rest99 = tenancy_asymmetry [of noon db1 9 9 1 "Some ''Buy milk''" None None 1 1
      accountDoesntExist None None,
      THEN conjunct2, THEN conjunct2, THEN conjunct2, THEN conjunct2, rule_format, OF ga]
  note rest12 = tenancy_asymmetry [of noon db1 1 2 1 "Some ''Buy milk''" None None 1 1
      userDoesntExist None None,
      THEN conjunct2, THEN conjunct2, THEN conjunct2, THEN conjunct2, rule_format, OF gu]
  have a: "fst (spTaskUpdate noon db1 9 9 1 (Some ''Buy milk'') None None 1 1)
      = Inl taskDoesntExist"
    using upd99 none by blast
  have b: "fst (spTaskUpdate noon db1 1 1 1 (Some ''Buy milk'') None None 1 1) = Inr 1"
    using upd11 some by blast
  show ?thesis
    using u ga gu a b cre99 cre12 rest99 rest12 by simp
qed

section \<open>The due date\<close>

text \<open>The calendar date of an instant does not depend on its time of day.\<close>

lemma CAST_AS_DATE_drops_time:
  "0 \<le> r \<Longrightarrow> r < 86400 \<Longrightarrow> CAST_AS_DATE (86400 * day + r) = day"
  by (simp add: CAST_AS_DATE_def div_pos_pos_trivial)

text \<open>
  C8: a due date strictly before the calendar date of the call makes the due-date
  condition true, so that Create and Update fail and leave the database as it was; the
  error is dueDateInPast whenever the title and description rules, which come first, pass.
  A due date that is absent, equal to the calendar date of the call or later makes the
  condition false, and neither procedure reports dueDateInPast.
\<close>

theorem dueDate_check:
  "(dd < CAST_AS_DATE now \<longrightarrow>
      dueDate_past now (Some dd)
      \<and> (\<exists>e. spTaskCreate now d p_idAccount p_idUser p_title p_description (Some dd)
                p_priority = (Inl e, d))
      \<and> (\<exists>e. spTaskUpdate now d p_idAccount p_idUser p_idTask p_title p_description
                (Some dd) p_priority p_status = (Inl e, d))
      \<and> (\<not> title_missing p_title \<and> \<not> title_short p_title \<and> \<not> title_long p_title
           \<and> \<not> description_long p_description \<longrightarrow>
           spTaskCreate now d p_idAccount p_idUser p_title p_description (Some dd)
             p_priority = (Inl dueDateInPast, d)
           \<and> spTaskUpdate now d p_idAccount p_idUser p_idTask p_title p_description
                (Some dd) p_priority p_status = (Inl dueDateInPast, d)))
   \<and> (p_dueDate = None \<or> (\<exists>dd'. p_dueDate = Some dd' \<and> CAST_AS_DATE now \<le> dd') \<longrightarrow>
      \<not> dueDate_past now p_dueDate
      \<and> fst (spTaskCreate now d p_idAccount p_idUser p_title p_description p_dueDate
             p_priority) \<noteq> Inl dueDateInPast
      \<and> fst (spTaskUpdate now d p_idAccount p_idUser p_idTask p_title p_description
             p_dueDate p_priority p_status) \<noteq> Inl dueDateInPast)"
proof -
  have past: "dueDate_past now (Some dd)" if "dd < CAST_AS_DATE now"
    using that by (simp add: dueDate_past_def)
  have c_fail: "\<exists>e. spTaskCreate now d p_idAccount p_idUser p_title p_description (Some dd)
      p_priority = (Inl e, d)" if "dd < CAST_AS_DATE now"
    using past [OF that] by (simp add: spTaskCreate_def spTaskCreate_body_def)
  have u_fail: "\<exists>e. spTaskUpdate now d p_idAccount p_idUser p_idTask p_title p_description
      (Some dd) p_priority p_status = (Inl e, d)" if "dd < CAST_AS_DATE now"
    using past [OF that] by (simp add: spTaskUpdate_def spTaskUpdate_body_def)
  have exact: "spTaskCreate now d p_idAccount p_idUser p_title p_description (Some dd)
        p_priority = (Inl dueDateInPast, d)
      \<and> spTaskUpdate now d p_idAccount p_idUser p_idTask p_title p_description
        (Some dd) p_priority p_status = (Inl dueDateInPast, d)"
    if "dd < CAST_AS_DATE now" "\<not> title_missing p_title \<and> \<not> title_short p_title
      \<and> \<not> title_long p_title \<and> \<not> description_long p_description"
    using past [OF that(1)] that(2)
    by (simp add: spTaskCreate_def spTaskUpdate_def spTaskCreate_body_def
        spTaskUpdate_body_def bound_title bound_never_long)
  have ok: "\<not> dueDate_past now p_dueDate"
    if "p_dueDate = None \<or> (\<exists>dd'. p_dueDate = Some dd' \<and> CAST_AS_DATE now \<le> dd')"
    using that by (auto simp: dueDate_past_def)
  have c_ok: "fst (spTaskCreate now d p_idAccount p_idUser p_title p_description p_dueDate
      p_priority) \<noteq> Inl dueDateInPast" if "\<not> dueDate_past now p_dueDate"
    using that by (simp add: spTaskCreate_def spTaskCreate_body_def Let_def)
  have u_ok: "fst (spTaskUpdate now d p_idAccount p_idUser p_idTask p_title p_description
      p_dueDate p_priority p_status) \<noteq> Inl dueDateInPast" if "\<not> dueDate_past now p_dueDate"
    using that by (simp add: spTaskUpdate_def spTaskUpdate_body_def)
  show ?thesis
    using past c_fail u_fail exact ok c_ok u_ok by (intro conjI impI) blast+
qed

theorem dueDate_check_witness:
  "CAST_AS_DATE noon = 20000
   \<and> spTaskCreate noon db1 1 1 (Some ''Buy milk'') None (Some 19999) 1
       = (Inl dueDateInPast, db1)
   \<and> spTaskUpdate noon db1 1 1 1 (Some ''Buy milk'') None (Some 19999) 1 1
       = (Inl dueDateInPast, db1)
   \<and> \<not> dueDate_past noon (Some 20000)
   \<and> fst (spTaskCreate noon db1 1 1 (Some ''Buy milk'') None (Some 20000) 1) = Inr 5
   \<and> fst (spTaskCreate noon db1 1 1 (Some ''Buy milk'') None (Some 20000) 1)
       \<noteq> Inl dueDateInPast
   \<and> fst (spTaskUpdate noon db1 1 1 1 (Some ''Buy milk'') None (Some 20000) 1 1)
       \<noteq> Inl dueDateInPast
   \<and> \<not> dueDate_past noon None"
proof -
  have today: "CAST_AS_DATE noon = 20000"
    by (simp add: CAST_AS_DATE_def noon_def)
  have before: "19999 < CAST_AS_DATE noon" and at: "CAST_AS_DATE noon \<le> 20000"
    by (simp_all add: today)
  have title_ok: "\<not> title_missing (Some ''Buy milk'') \<and> \<not> title_short (Some ''Buy milk'')
      \<and> \<not> title_long (Some ''Buy milk'') \<and> \<not> description_long None"
    by (simp add: sp_conds sql_builtins)
  note past = dueDate_check [of 19999 noon db1 1 1 "Some ''Buy milk''" None 1 1 1,
      THEN conjunct1, rule_format, OF before,
      THEN conjunct2, THEN conjunct2, THEN conjunct2, rule_format, OF title_ok]
  have "Some 20000 = None \<or> (\<exists>dd'. Some 20000 = Some dd' \<and> CAST_AS_DATE noon \<le> dd')"
    using at by simp
  note present = dueDate_check [of _ noon db1 1 1 "Some ''Buy milk''" None 1 1 1 "Some 20000",
      THEN conjunct2, rule_format, OF this]
  have "(None :: date option) = None \<or> (\<exists>dd'. None = Some dd' \<and> CAST_AS_DATE noon \<le> dd')"
    by simp
  note absent = dueDate_check [of _ noon db1 1 1 "Some ''Buy milk''" None 1 1 1 None,
      THEN conjunct2, rule_format, OF this]
  have created: "fst (spTaskCreate noon db1 1 1 (Some ''Buy milk'') None (Some 20000) 1)
      = Inr 5"
    by (simp add: spTaskCreate_def spTaskCreate_body_def nvarchar_def sp_conds sql_builtins
        account_exists_def user_exists_def
        db1_def noon_def)
  show ?thesis
    using today past present absent created by simp
qed

section \<open>Soft deletion\<close>

lemma soft_delete_rows:
  assumes "x \<in> set (map (\<lambda>y. if P y then y\<lparr> deleted := True, dateModified := now \<rparr> else y) xs)"
    and "\<not> deleted x"
  shows "x \<in> set xs \<and> \<not> P x"
proof -
  from assms(1) obtain y where y: "y \<in> set xs"
    "x = (if P y then y\<lparr> deleted := True, dateModified := now \<rparr> else y)"
    by (auto simp only: set_map image_iff)
  show ?thesis
  proof (cases "P y")
    case True
    with y(2) assms(2) show ?thesis by simp
  next
    case False
    with y show ?thesis by simp
  qed
qed

lemma delete_keeps_tenants:
  "accounts (snd (spTaskDelete now d p_idAccount p_idUser p_idTask)) = accounts d
   \<and> users (snd (spTaskDelete now d p_idAccount p_idUser p_idTask)) = users d"
  by (simp add: spTaskDelete_def)

text \<open>
  C7: for a row that is not deleted, a Delete by its account and user (which pass the
  tenancy guard) returns the task id and marks the row deleted. On the database after it,
  a second Delete and a Get of the same id fail with taskDoesntExist, and an Update of the
  same id always fails, with taskDoesntExist whenever its validation rules pass.
\<close>

theorem delete_not_idempotent:
  assumes guard: "tenancy_guard d p_idAccount p_idUser = None"
    and row: "tsk \<in> set (tasks d)"
    and own: "idTask tsk = p_idTask" "idAccount tsk = p_idAccount" "idUser tsk = p_idUser"
    and live: "\<not> deleted tsk"
  shows "fst (spTaskDelete now d p_idAccount p_idUser p_idTask) = Inr p_idTask
    \<and> tsk\<lparr> deleted := True, dateModified := now \<rparr>
         \<in> set (tasks (snd (spTaskDelete now d p_idAccount p_idUser p_idTask)))
    \<and> (\<forall>x \<in> set (tasks (snd (spTaskDelete now d p_idAccount p_idUser p_idTask))).
          idTask x = p_idTask \<and> idAccount x = p_idAccount \<and> idUser x = p_idUser
            \<longrightarrow> deleted x)
    \<and> spTaskDelete now' (snd (spTaskDelete now d p_idAccount p_idUser p_idTask))
          p_idAccount p_idUser p_idTask
        = (Inl taskDoesntExist, snd (spTaskDelete now d p_idAccount p_idUser p_idTask))
    \<and> spTaskGet (snd (spTaskDelete now d p_idAccount p_idUser p_idTask))
          p_idAccount p_idUser p_idTask = Inl taskDoesntExist
    \<and> (\<exists>e. spTaskUpdate now' (snd (spTaskDelete now d p_idAccount p_idUser p_idTask))
          p_idAccount p_idUser p_idTask p_title p_description p_dueDate p_priority p_status
        = (Inl e, snd (spTaskDelete now d p_idAccount p_idUser p_idTask)))
    \<and> (first_failing (update_rules now' p_title p_description p_dueDate p_priority p_status)
          = None \<longrightarrow>
        spTaskUpdate now' (snd (spTaskDelete now d p_idAccount p_idUser p_idTask))
          p_idAccount p_idUser p_idTask p_title p_description p_dueDate p_priority p_status
        = (Inl taskDoesntExist, snd (spTaskDelete now d p_idAccount p_idUser p_idTask)))"
proof -
  let ?d' = "snd (spTaskDelete now d p_idAccount p_idUser p_idTask)"
  have g: "account_exists d p_idAccount" "user_exists d p_idAccount p_idUser"
    using guard by (auto simp: tenancy_guard_def split: if_splits)
  have m: "task_matches p_idAccount p_idUser p_idTask tsk"
    using own live by (simp add: task_matches_def)
  then have ex: "task_exists d p_idAccount p_idUser p_idTask"
    using row by (auto simp: task_exists_def)
  have first: "fst (spTaskDelete now d p_idAccount p_idUser p_idTask) = Inr p_idTask"
    using g ex by (simp add: spTaskDelete_def)
  have tasks': "tasks ?d' =
      map (\<lambda>x. if task_matches p_idAccount p_idUser p_idTask x
                then x\<lparr> deleted := True, dateModified := now \<rparr> else x) (tasks d)"
    using g ex by (simp add: spTaskDelete_def)
  have marked: "tsk\<lparr> deleted := True, dateModified := now \<rparr> \<in> set (tasks ?d')"
  proof -
    have "(\<lambda>x. if task_matches p_idAccount p_idUser p_idTask x
                then x\<lparr> deleted := True, dateModified := now \<rparr> else x) tsk
          \<in> set (tasks ?d')"
      unfolding tasks' using row by (simp only: set_map image_eqI)
    then show ?thesis using m by simp
  qed
  have live_rows: "\<not> task_matches p_idAccount p_idUser p_idTask x"
    if "x \<in> set (tasks ?d')" "\<not> deleted x" for x
    using soft_delete_rows [OF that(1) [unfolded tasks'] that(2)] by (rule conjunct2)
  have all_deleted: "\<forall>x \<in> set (tasks ?d').
      idTask x = p_idTask \<and> idAccount x = p_idAccount \<and> idUser x = p_idUser \<longrightarrow> deleted x"
  proof (intro ballI impI)
    fix x assume x: "x \<in> set (tasks ?d')"
      "idTask x = p_idTask \<and> idAccount x = p_idAccount \<and> idUser x = p_idUser"
    show "deleted x"
    proof (rule ccontr)
      assume "\<not> deleted x"
      from live_rows [OF x(1) this] x(2) this show False by (simp add: task_matches_def)
    qed
  qed
  have gone: "\<not> task_exists ?d' p_idAccount p_idUser p_idTask"
  proof
    assume "task_exists ?d' p_idAccount p_idUser p_idTask"
    then obtain x where x: "x \<in> set (tasks ?d')" "task_matches p_idAccount p_idUser p_idTask x"
      unfolding task_exists_def by blast
    from x(2) have "\<not> deleted x" by (simp add: task_matches_def)
    from live_rows [OF x(1) this] x(2) show False by simp
  qed
  have g': "account_exists ?d' p_idAccount" "user_exists ?d' p_idAccount p_idUser"
    using g delete_keeps_tenants [of now d p_idAccount p_idUser p_idTask]
    by (simp_all add: account_exists_def user_exists_def)
  have second: "spTaskDelete now' ?d' p_idAccount p_idUser p_idTask = (Inl taskDoesntExist, ?d')"
    using g' gone by (simp add: spTaskDelete_def)
  have get: "spTaskGet ?d' p_idAccount p_idUser p_idTask = Inl taskDoesntExist"
    using g' gone by (simp add: spTaskGet_def)
  have upd_fails: "\<exists>e. spTaskUpdate now' ?d' p_idAccount p_idUser p_idTask p_title
      p_description p_dueDate p_priority p_status = (Inl e, ?d')"
    using gone by (simp add: spTaskUpdate_def spTaskUpdate_body_def)
  have upd: "first_failing (update_rules now' p_title p_description p_dueDate p_priority
        p_status) = None \<longrightarrow>
      spTaskUpdate now' ?d' p_idAccount p_idUser p_idTask p_title p_description p_dueDate
        p_priority p_status = (Inl taskDoesntExist, ?d')"
    using gone by (simp add: update_rules_pass)
  show ?thesis
    by (rule conjI [OF first conjI [OF marked conjI [OF all_deleted
          conjI [OF second conjI [OF get conjI [OF upd_fails upd]]]]]])
qed

theorem delete_not_idempotent_witness:
  "tenancy_guard db1 1 1 = None \<and> task1 \<in> set (tasks db1)
   \<and> idTask task1 = 1 \<and> idAccount task1 = 1 \<and> idUser task1 = 1 \<and> \<not> deleted task1
   \<and> fst (spTaskDelete noon db1 1 1 1) = Inr 1
   \<and> task1\<lparr> deleted := True, dateModified := noon \<rparr>
        \<in> set (tasks (snd (spTaskDelete noon db1 1 1 1)))
   \<and> spTaskDelete (noon + 60) (snd (spTaskDelete noon db1 1 1 1)) 1 1 1
       = (Inl taskDoesntExist, snd (spTaskDelete noon db1 1 1 1))
   \<and> spTaskGet (snd (spTaskDelete noon db1 1 1 1)) 1 1 1 = Inl taskDoesntExist
   \<and> spTaskUpdate (noon + 60) (snd (spTaskDelete noon db1 1 1 1)) 1 1 1 (Some ''Buy milk'')
        None None 1 1
       = (Inl taskDoesntExist, snd (spTaskDelete noon db1 1 1 1))"
proof -
  have g: "tenancy_guard db1 1 1 = None"
    by (simp add: tenancy_guard_def account_exists_def user_exists_def db1_def)
  have row: "task1 \<in> set (tasks db1)" by (simp add: db1_def)
  have own: "idTask task1 = 1" "idAccount task1 = 1" "idUser task1 = 1"
    and live: "\<not> deleted task1"
    by (simp_all add: task1_def)
  have u: "first_failing (update_rules (noon + 60) (Some ''Buy milk'') None None 1 1) = None"
    by (simp add: update_rules_def create_rules_def sp_conds sql_builtins)
  note all = delete_not_idempotent [OF g row own live, of noon "noon + 60"
      "Some ''Buy milk''" None None 1 1]
  note first = all [THEN conjunct1]
  note marked = all [THEN conjunct2, THEN conjunct1]
  note second = all [THEN conjunct2, THEN conjunct2, THEN conjunct2, THEN conjunct1]
  note get = all [THEN conjunct2, THEN conjunct2, THEN conjunct2, THEN conjunct2,
      THEN conjunct1]
  note upd = all [THEN conjunct2, THEN conjunct2, THEN conjunct2, THEN conjunct2,
      THEN conjunct2, THEN conjunct2, rule_format, OF u]
  show ?thesis
    by (intro conjI g row own live first marked second get upd)
qed

section \<open>Isolation of tenants\<close>

text \<open>Under the primary key, the id of a row of one account and user matches no row of
  another.\<close>

lemma primary_key_owner:
  assumes pk: "pkTask d"
    and row: "tsk \<in> set (tasks d)"
    and other: "(idAccount tsk, idUser tsk) \<noteq> (p_idAccount, p_idUser)"
  shows "\<not> task_exists d p_idAccount p_idUser (idTask tsk)"
proof
  assume "task_exists d p_idAccount p_idUser (idTask tsk)"
  then obtain x where x: "x \<in> set (tasks d)"
    "task_matches p_idAccount p_idUser (idTask tsk) x"
    unfolding task_exists_def by blast
  have "inj_on idTask (set (tasks d))"
    using pk by (simp add: pkTask_def distinct_map)
  moreover have "idTask x = idTask tsk" using x(2) by (simp add: task_matches_def)
  ultimately have "x = tsk" using x(1) row by (rule inj_onD)
  with x(2) other show False by (simp add: task_matches_def)
qed

text \<open>
  C3: for the id of a row that belongs to another (idAccount, idUser) pair than the
  caller's, Get returns an error and no row, and Update and Delete return an error and
  leave the database, hence that row, as it was. The error is taskDoesntExist whenever
  the checks that come before the task-existence check pass: the tenancy guard of the
  caller in Get and Delete, the validation rules in Update.
\<close>

theorem cross_tenant_isolation:
  assumes pk: "pkTask d"
    and row: "tsk \<in> set (tasks d)"
    and id: "idTask tsk = p_idTask"
    and other: "(idAccount tsk, idUser tsk) \<noteq> (p_idAccount, p_idUser)"
  shows "(\<exists>e. spTaskGet d p_idAccount p_idUser p_idTask = Inl e)
    \<and> (tenancy_guard d p_idAccount p_idUser = None \<longrightarrow>
         spTaskGet d p_idAccount p_idUser p_idTask = Inl taskDoesntExist)
    \<and> (\<exists>e. spTaskUpdate now d p_idAccount p_idUser p_idTask p_title p_description p_dueDate
              p_priority p_status = (Inl e, d))
    \<and> (first_failing (update_rules now p_title p_description p_dueDate p_priority p_status)
          = None \<longrightarrow>
         spTaskUpdate now d p_idAccount p_idUser p_idTask p_title p_description p_dueDate
           p_priority p_status = (Inl taskDoesntExist, d))
    \<and> (\<exists>e. spTaskDelete now d p_idAccount p_idUser p_idTask = (Inl e, d))
    \<and> (tenancy_guard d p_idAccount p_idUser = None \<longrightarrow>
         spTaskDelete now d p_idAccount p_idUser p_idTask = (Inl taskDoesntExist, d))"
proof -
  have none: "\<not> task_exists d p_idAccount p_idUser p_idTask"
    using primary_key_owner [OF pk row other] id by simp
  have get_fails: "\<exists>e. spTaskGet d p_idAccount p_idUser p_idTask = Inl e"
    using none by (simp add: spTaskGet_def)
  have get: "tenancy_guard d p_idAccount p_idUser = None \<longrightarrow>
      spTaskGet d p_idAccount p_idUser p_idTask = Inl taskDoesntExist"
    using none by (simp add: spTaskGet_def tenancy_guard_def)
  have upd_fails: "\<exists>e. spTaskUpdate now d p_idAccount p_idUser p_idTask p_title
      p_description p_dueDate p_priority p_status = (Inl e, d)"
    using none by (simp add: spTaskUpdate_def spTaskUpdate_body_def)
  have upd: "first_failing (update_rules now p_title p_description p_dueDate p_priority
        p_status) = None \<longrightarrow>
      spTaskUpdate now d p_idAccount p_idUser p_idTask p_title p_description p_dueDate
        p_priority p_status = (Inl taskDoesntExist, d)"
    using none by (simp add: update_rules_pass)
  have del_fails: "\<exists>e. spTaskDelete now d p_idAccount p_idUser p_idTask = (Inl e, d)"
    using none by (simp add: spTaskDelete_def)
  have del: "tenancy_guard d p_idAccount p_idUser = None \<longrightarrow>
      spTaskDelete now d p_idAccount p_idUser p_idTask = (Inl taskDoesntExist, d)"
    using none by (simp add: spTaskDelete_def tenancy_guard_def)
  show ?thesis
    by (intro conjI get_fails get upd_fails upd del_fails del)
qed

theorem cross_tenant_isolation_witness:
  "pkTask db1 \<and> task4 \<in> set (tasks db1) \<and> idTask task4 = 4
   \<and> (idAccount task4, idUser task4) \<noteq> (1, 1)
   \<and> tenancy_guard db1 1 1 = None
   \<and> first_failing (update_rules noon (Some ''Mine now'') None None 2 2) = None
   \<and> spTaskGet db1 1 1 4 = Inl taskDoesntExist
   \<and> spTaskUpdate noon db1 1 1 4 (Some ''Mine now'') None None 2 2
       = (Inl taskDoesntExist, db1)
   \<and> spTaskDelete noon db1 1 1 4 = (Inl taskDoesntExist, db1)"
proof -
  have pk: "pkTask db1" by (simp add: pkTask_def db1_rows)
  have row: "task4 \<in> set (tasks db1)" by (simp add: db1_def)
  have id: "idTask task4 = 4" by (simp add: task4_def)
  have other: "(idAccount task4, idUser task4) \<noteq> (1, 1)" by (simp add: task4_def)
  have g: "tenancy_guard db1 1 1 = None"
    by (simp add: tenancy_guard_def account_exists_def user_exists_def db1_def)
  have u: "first_failing (update_rules noon (Some ''Mine now'') None None 2 2) = None"
    by (simp add: update_rules_def create_rules_def sp_conds sql_builtins)
  note all = cross_tenant_isolation [OF pk row id other, of noon "Some ''Mine now''" None
      None 2 2]
  note get = all [THEN conjunct2, THEN conjunct1, rule_format, OF g]
  note upd = all [THEN conjunct2, THEN conjunct2, THEN conjunct2, THEN conjunct1,
      rule_format, OF u]
  note del = all [THEN conjunct2, THEN conjunct2, THEN conjunct2, THEN conjunct2,
      THEN conjunct2, rule_format, OF g]
  show ?thesis
    by (intro conjI pk row id other g u get upd del)
qed

section \<open>The list\<close>

text \<open>The sort key orders rows as \<open>listed_before\<close> says.\<close>

lemma dueDate_asc_less: "dueDate_asc x y \<longleftrightarrow> x < y"
  by (cases x; cases y) (simp_all add: dueDate_asc_def)

lemma order_by_key_le:
  "order_by_key x \<le> order_by_key y
     \<longleftrightarrow> listed_before (select_columns x) (select_columns y)"
  by (auto simp: order_by_key_def listed_before_def select_columns_def dueDate_asc_less)

lemma sorted_rows:
  "sorted_wrt listed_before (map select_columns (sort_key order_by_key xs))"
proof -
  have "sorted (map order_by_key (sort_key order_by_key xs))"
    by (rule sorted_sort_key)
  then have "sorted_wrt (\<lambda>x y. order_by_key x \<le> order_by_key y) (sort_key order_by_key xs)"
    by (simp only: sorted_wrt_map)
  then have "sorted_wrt (\<lambda>x y. listed_before (select_columns x) (select_columns y))
      (sort_key order_by_key xs)"
    by (simp only: order_by_key_le)
  then show ?thesis by (simp only: sorted_wrt_map)
qed

lemma list_db1:
  "spTaskList db1 1 1 None None = Inr [select_columns task1, select_columns task2]"
  by (simp add: spTaskList_def account_exists_def user_exists_def list_where_def
      order_by_key_def db1_rows)

text \<open>
  C2, as the procedure has it: the rows List returns are sorted by priority descending,
  then by due date ascending with the rows that have no due date before all rows that
  have one, then by creation time descending: each row is \<open>listed_before\<close> every row
  after it.
\<close>

theorem list_order:
  "spTaskList d p_idAccount p_idUser p_status p_priority = Inr rows
     \<Longrightarrow> sorted_wrt listed_before rows"
  using sorted_rows by (auto simp: spTaskList_def split: if_splits)

theorem list_order_witness:
  "spTaskList db1 1 1 None None = Inr [select_columns task1, select_columns task2]
   \<and> sorted_wrt listed_before [select_columns task1, select_columns task2]
   \<and> listed_before (select_columns task1) (select_columns task2)"
proof -
  note s = list_order [OF list_db1]
  then have "listed_before (select_columns task1) (select_columns task2)" by simp
  with list_db1 s show ?thesis by (intro conjI)
qed

text \<open>
  C2 as stated puts the rows without due date after the rows with one. On the sample
  database the list of account 1, user 1 holds two rows of equal priority, and the row
  without due date comes first.
\<close>

theorem list_nulls_last_counterexample:
  "spTaskList db1 1 1 None None = Inr [select_columns task1, select_columns task2]
   \<and> priority (select_columns task1) = priority (select_columns task2)
   \<and> dueDate (select_columns task1) = None
   \<and> dueDate (select_columns task2) = Some 20005
   \<and> \<not> listed_before_nulls_last (select_columns task1) (select_columns task2)
   \<and> \<not> sorted_wrt listed_before_nulls_last [select_columns task1, select_columns task2]"
  by (simp add: list_db1)
    (simp add: listed_before_nulls_last_def dueDate_asc_nulls_last_def select_columns_def
      task1_def task2_def)

text \<open>The procedure applies both filters, whatever their value: it returns the selected
  columns of exactly the rows of the account and user that are not deleted and have the
  given status and the given priority.\<close>

lemma spTaskList_rows:
  assumes "tenancy_guard d p_idAccount p_idUser = None"
  shows "\<exists>rows. spTaskList d p_idAccount p_idUser p_status p_priority = Inr rows
    \<and> length rows
        = length (filter (list_where p_idAccount p_idUser p_status p_priority) (tasks d))
    \<and> set rows = select_columns `
        {tsk \<in> set (tasks d). idAccount tsk = p_idAccount \<and> idUser tsk = p_idUser
           \<and> \<not> deleted tsk
           \<and> (\<forall>s. p_status = Some s \<longrightarrow> status tsk = s)
           \<and> (\<forall>p. p_priority = Some p \<longrightarrow> priority tsk = p)}"
proof -
  have g: "account_exists d p_idAccount" "user_exists d p_idAccount p_idUser"
    using assms by (auto simp: tenancy_guard_def split: if_splits)
  have w: "list_where p_idAccount p_idUser p_status p_priority tsk \<longleftrightarrow>
      idAccount tsk = p_idAccount \<and> idUser tsk = p_idUser \<and> \<not> deleted tsk
      \<and> (\<forall>s. p_status = Some s \<longrightarrow> status tsk = s)
      \<and> (\<forall>p. p_priority = Some p \<longrightarrow> priority tsk = p)" for tsk
    by (cases p_status; cases p_priority) (simp_all add: list_where_def)
  show ?thesis
    using g by (auto simp: spTaskList_def w)
qed

text \<open>
  C1: List with a status or priority filter returns the rows that have that status or
  priority, also for the filter value 0. The procedure does (\<open>spTaskList_rows\<close>); the
  list handler passes \<^verbatim>\<open>validated.params.status || null\<close>, and 0 is falsy, so a request
  with status 0 reaches the procedure without status filter. On the sample database it
  is answered with the task in progress as well, as a request without filter is; the same
  holds for priority 0, while the filter value 1 is applied.
\<close>

theorem list_status_zero_ignored:
  "getHandler db1 (CInt 0) CUndefined
     = Json200 [select_columns task1, select_columns task2]
   \<and> status (select_columns task2) = 1
   \<and> getHandler db1 (CInt 0) CUndefined = getHandler db1 CUndefined CUndefined
   \<and> getHandler db1 CUndefined (CInt 0)
       = Json200 [select_columns task1, select_columns task2]
   \<and> priority (select_columns task2) = 1
   \<and> spTaskList db1 1 1 (Some 0) None = Inr [select_columns task1]
   \<and> getHandler db1 (CInt 1) CUndefined = Json200 [select_columns task2]"
proof -
  have zero: "or_null_number (Value 0) = None" and one: "or_null_number (Value 1) = Some 1"
    and undef: "or_null_number Undefined = None"
    by (simp_all add: or_null_number_def)
  have sp0: "spTaskList db1 1 1 (Some 0) None = Inr [select_columns task1]"
    by (simp add: spTaskList_def account_exists_def user_exists_def list_where_def
        order_by_key_def db1_rows)
  have sp1: "spTaskList db1 1 1 (Some 1) None = Inr [select_columns task2]"
    by (simp add: spTaskList_def account_exists_def user_exists_def list_where_def
        order_by_key_def db1_rows)
  have h0: "getHandler db1 (CInt 0) CUndefined
      = Json200 [select_columns task1, select_columns task2]"
    by (simp add: getHandler_def filter_schema_def zero undef taskList_def
        credential_idAccount_def credential_idUser_def list_db1)
  have hu: "getHandler db1 CUndefined CUndefined
      = Json200 [select_columns task1, select_columns task2]"
    by (simp add: getHandler_def filter_schema_def undef taskList_def
        credential_idAccount_def credential_idUser_def list_db1)
  have hp: "getHandler db1 CUndefined (CInt 0)
      = Json200 [select_columns task1, select_columns task2]"
    by (simp add: getHandler_def filter_schema_def zero undef taskList_def
        credential_idAccount_def credential_idUser_def list_db1)
  have h1: "getHandler db1 (CInt 1) CUndefined = Json200 [select_columns task2]"
    by (simp add: getHandler_def filter_schema_def one undef taskList_def
        credential_idAccount_def credential_idUser_def sp1)
  have st: "status (select_columns task2) = 1" "priority (select_columns task2) = 1"
    by (simp_all add: select_columns_def task2_def)
  show ?thesis
    using h0 hu hp h1 sp0 st by simp
qed

section \<open>Empty descriptions\<close>

lemma or_null_empty:
  "or_null_string (Value []) = None" "or_null_string Null = None"
  "or_null_string Undefined = None"
  by (simp_all add: or_null_string_def)

lemma respond_Json200:
  "respond r = (Json200 i, d') \<longleftrightarrow> r = (Inr i, d')"
  by (cases r; cases "fst r") (auto simp: respond_def)

lemma create_succeeds_only_if:
  assumes "spTaskCreate now d p_idAccount p_idUser p_title p_description p_dueDate p_priority
      = (Inr i, d')"
  shows "account_exists d p_idAccount \<and> user_exists d p_idAccount p_idUser
    \<and> i = ident d
    \<and> (\<exists>row. d' = d\<lparr> tasks := tasks d @ [row], ident := ident d + 1 \<rparr>
          \<and> idTask row = ident d \<and> idAccount row = p_idAccount \<and> idUser row = p_idUser
          \<and> \<not> deleted row \<and> description row = nvarchar 1000 p_description
          \<and> dueDate row = p_dueDate)"
  using assms
  by (simp add: spTaskCreate_def spTaskCreate_body_def Let_def split: if_splits) auto

lemma update_succeeds_only_if:
  assumes "spTaskUpdate now d p_idAccount p_idUser p_idTask p_title p_description p_dueDate
      p_priority p_status = (Inr j, d')"
  shows "j = p_idTask
    \<and> tasks d' = map (\<lambda>tsk. if task_matches p_idAccount p_idUser p_idTask tsk
                       then update_row now (nvarchar 100 p_title)
                              (nvarchar 1000 p_description) p_dueDate p_priority p_status tsk
                       else tsk) (tasks d)"
  using assms
  by (simp add: spTaskUpdate_def spTaskUpdate_body_def split: if_splits) auto

lemma updated_rows:
  assumes "x \<in> set (map (\<lambda>tsk. if task_matches a u i tsk
                then update_row now p_title p_description p_dueDate p_priority p_status tsk
                else tsk) xs)"
    and "task_matches a u i x"
  shows "description x = p_description \<and> dueDate x = p_dueDate"
proof -
  from assms(1) obtain y where y: "y \<in> set xs"
    "x = (if task_matches a u i y
          then update_row now p_title p_description p_dueDate p_priority p_status y else y)"
    by (auto simp only: set_map image_iff)
  show ?thesis
  proof (cases "task_matches a u i y")
    case True
    with y(2) show ?thesis by (simp add: update_row_def)
  next
    case False
    with y(2) assms(2) show ?thesis by simp
  qed
qed

text \<open>
  C10: a Create or Update request whose description is the empty string is handled as
  the same request with description \<^verbatim>\<open>null\<close>. When the Create request succeeds, the row
  it stores has description \<^verbatim>\<open>NULL\<close> and the detail handler returns it with description
  \<^verbatim>\<open>null\<close> (the identity value being above every stored id); when the Update request
  succeeds, every row it matched has description \<^verbatim>\<open>NULL\<close>. An absent due date is handled
  as a due date \<^verbatim>\<open>null\<close> as well.
\<close>

theorem empty_description_is_null:
  "postHandler datetime to_date now d r_title (JString []) r_dueDate r_priority
     = postHandler datetime to_date now d r_title JNull r_dueDate r_priority
   \<and> putHandler datetime to_date now d r_id r_title (JString []) r_dueDate r_priority r_status
     = putHandler datetime to_date now d r_id r_title JNull r_dueDate r_priority r_status
   \<and> (identity_ok d
        \<and> postHandler datetime to_date now d r_title (JString []) r_dueDate r_priority
            = (Json200 i, d') \<longrightarrow>
        (\<exists>row. tasks d' = tasks d @ [row] \<and> idTask row = i \<and> description row = None
           \<and> getHandler_detail d' (CInt i) = Json200 (Some (select_columns row))
           \<and> description (select_columns row) = None))
   \<and> (putHandler datetime to_date now d r_id r_title (JString []) r_dueDate r_priority r_status
          = (Json200 j, d') \<longrightarrow>
        r_id = CInt j
        \<and> (\<forall>row \<in> set (tasks d').
              task_matches credential_idAccount credential_idUser j row \<longrightarrow>
              description row = None))
   \<and> postHandler datetime to_date now d r_title r_description JUndefined r_priority
     = postHandler datetime to_date now d r_title r_description JNull r_priority
   \<and> putHandler datetime to_date now d r_id r_title r_description JUndefined r_priority
       r_status
     = putHandler datetime to_date now d r_id r_title r_description JNull r_priority r_status"
proof -
  have post_due: "postHandler datetime to_date now d r_title r_description JUndefined
      r_priority
     = postHandler datetime to_date now d r_title r_description JNull r_priority"
    by (simp add: postHandler_def dueDate_schema_def or_null_empty split: option.splits)
  have put_due: "putHandler datetime to_date now d r_id r_title r_description JUndefined
      r_priority r_status
     = putHandler datetime to_date now d r_id r_title r_description JNull r_priority r_status"
    by (simp add: putHandler_def dueDate_schema_def or_null_empty split: option.splits)
  have post_eq: "postHandler datetime to_date now d r_title (JString []) r_dueDate r_priority
     = postHandler datetime to_date now d r_title JNull r_dueDate r_priority"
    by (simp add: postHandler_def zNullableStringWithMax_def or_null_empty
        split: option.splits)
  have put_eq: "putHandler datetime to_date now d r_id r_title (JString []) r_dueDate
      r_priority r_status
     = putHandler datetime to_date now d r_id r_title JNull r_dueDate r_priority r_status"
    by (simp add: putHandler_def zNullableStringWithMax_def or_null_empty
        split: option.splits)
  have post: "\<exists>row. tasks d' = tasks d @ [row] \<and> idTask row = i \<and> description row = None
      \<and> getHandler_detail d' (CInt i) = Json200 (Some (select_columns row))
      \<and> description (select_columns row) = None"
    if fresh: "identity_ok d"
      and ok: "postHandler datetime to_date now d r_title (JString []) r_dueDate r_priority
        = (Json200 i, d')"
  proof -
    from ok obtain v_title dd v_priority where
      "taskCreate now d credential_idAccount credential_idUser v_title None dd v_priority
         = (Inr i, d')"
      by (auto simp: postHandler_def zNullableStringWithMax_def or_null_empty
          respond_Json200 split: option.splits)
    then have c: "spTaskCreate now d credential_idAccount credential_idUser (Some v_title)
        None dd v_priority = (Inr i, d')"
      by (simp add: taskCreate_def)
    have null: "nvarchar 1000 None = None" by (simp add: nvarchar_def)
    from create_succeeds_only_if [OF c, unfolded null] obtain row where
      g: "account_exists d credential_idAccount"
        "user_exists d credential_idAccount credential_idUser"
      and i: "i = ident d"
      and d': "d' = d\<lparr> tasks := tasks d @ [row], ident := ident d + 1 \<rparr>"
      and row: "idTask row = ident d" "idAccount row = credential_idAccount"
        "idUser row = credential_idUser" "\<not> deleted row" "description row = None"
      by blast
    have pos: "0 < i" using fresh i by (simp add: identity_ok_def)
    have get: "taskGet d' credential_idAccount credential_idUser i
        = Inr (Some (select_columns row))"
      unfolding d' i by (rule get_new_row [OF fresh g row(1-4)])
    have "getHandler_detail d' (CInt i) = Json200 (Some (select_columns row))"
      using pos get by (simp add: getHandler_detail_def id_schema_def)
    moreover have "description (select_columns row) = None"
      using row(5) by (simp add: select_columns_def)
    moreover have "tasks d' = tasks d @ [row]" by (simp add: d')
    ultimately show ?thesis using row(1,5) i by blast
  qed
  have put: "r_id = CInt j
      \<and> (\<forall>row \<in> set (tasks d').
            task_matches credential_idAccount credential_idUser j row \<longrightarrow>
            description row = None)"
    if ok: "putHandler datetime to_date now d r_id r_title (JString []) r_dueDate r_priority
        r_status = (Json200 j, d')"
  proof -
    from ok obtain v_id v_title dd v_priority v_status where
      v: "id_schema r_id = Some v_id"
      and "taskUpdate now d credential_idAccount credential_idUser v_id v_title None dd
         v_priority v_status = (Inr j, d')"
      by (auto simp: putHandler_def zNullableStringWithMax_def or_null_empty
          respond_Json200 split: option.splits)
    then have u: "spTaskUpdate now d credential_idAccount credential_idUser v_id
        (Some v_title) None dd v_priority v_status = (Inr j, d')"
      by (simp add: taskUpdate_def)
    have null: "nvarchar 1000 None = None" by (simp add: nvarchar_def)
    note s = update_succeeds_only_if [OF u, unfolded null]
    have j: "j = v_id" using s by (rule conjunct1)
    have rid: "r_id = CInt j"
      using v j by (cases r_id) (simp_all add: id_schema_def split: if_splits)
    have "description row = None"
      if "row \<in> set (tasks d')"
        "task_matches credential_idAccount credential_idUser j row" for row
      using updated_rows [OF that(1) [unfolded s [THEN conjunct2] j [symmetric]] that(2)]
      by (rule conjunct1)
    with rid show ?thesis by blast
  qed
  have post_imp: "identity_ok d
        \<and> postHandler datetime to_date now d r_title (JString []) r_dueDate r_priority
            = (Json200 i, d') \<longrightarrow>
        (\<exists>row. tasks d' = tasks d @ [row] \<and> idTask row = i \<and> description row = None
           \<and> getHandler_detail d' (CInt i) = Json200 (Some (select_columns row))
           \<and> description (select_columns row) = None)"
    using post by blast
  have put_imp: "putHandler datetime to_date now d r_id r_title (JString []) r_dueDate
        r_priority r_status = (Json200 j, d') \<longrightarrow>
        r_id = CInt j
        \<and> (\<forall>row \<in> set (tasks d').
              task_matches credential_idAccount credential_idUser j row \<longrightarrow>
              description row = None)"
    using put by blast
  show ?thesis
    by (intro conjI post_eq put_eq post_imp put_imp post_due put_due)
qed

theorem empty_description_is_null_witness:
  "identity_ok db1
   \<and> fst (postHandler (\<lambda>s. False) (\<lambda>s. None) noon db1 (JString ''Buy milk'') (JString [])
           JNull JUndefined) = Json200 5
   \<and> (\<exists>row. tasks (snd (postHandler (\<lambda>s. False) (\<lambda>s. None) noon db1 (JString ''Buy milk'')
                 (JString []) JNull JUndefined)) = tasks db1 @ [row]
         \<and> idTask row = 5 \<and> description row = None
         \<and> getHandler_detail (snd (postHandler (\<lambda>s. False) (\<lambda>s. None) noon db1
               (JString ''Buy milk'') (JString []) JNull JUndefined)) (CInt 5)
             = Json200 (Some (select_columns row))
         \<and> description (select_columns row) = None)
   \<and> description task2 = Some ''draft''
   \<and> putHandler (\<lambda>s. False) (\<lambda>s. None) noon db1 (CInt 2) (JString ''Write report'')
         (JString []) JNull (JInt 1) (JInt 1)
       = (Json200 2,
          db1\<lparr> tasks := [task1, update_row noon (Some ''Write report'') None None 1 1 task2,
                          task3, task4] \<rparr>)
   \<and> description (update_row noon (Some ''Write report'') None None 1 1 task2) = None"
proof -
  let ?post = "postHandler (\<lambda>s. False) (\<lambda>s. None) noon db1 (JString ''Buy milk'')
      (JString []) JNull JUndefined"
  let ?put = "putHandler (\<lambda>s. False) (\<lambda>s. None) noon db1 (CInt 2)
      (JString ''Write report'') (JString []) JNull (JInt 1) (JInt 1)"
  let ?row = "update_row noon (Some ''Write report'') None None 1 1 task2"
  have fresh: "identity_ok db1"
    by (simp add: identity_ok_def db1_rows)
  have post: "fst ?post = Json200 5"
    by (simp add: postHandler_def title_schema_def zStringWithMax_def
        zNullableStringWithMax_def dueDate_schema_def priority_default_schema_def
        bind_dueDate_def or_null_string_def respond_def taskCreate_def spTaskCreate_def
        spTaskCreate_body_def nvarchar_def
        sp_conds sql_builtins account_exists_def user_exists_def credential_idAccount_def
        credential_idUser_def db1_def)
  have put: "?put = (Json200 2, db1\<lparr> tasks := [task1, ?row, task3, task4] \<rparr>)"
    by (simp add: putHandler_def id_schema_def title_schema_def zStringWithMax_def
        zNullableStringWithMax_def dueDate_schema_def int_0_2_schema_def
        bind_dueDate_def or_null_string_def respond_def taskUpdate_def spTaskUpdate_def
        spTaskUpdate_body_def nvarchar_def
        sp_conds sql_builtins task_exists_def task_matches_def credential_idAccount_def
        credential_idUser_def db1_rows)
  have post': "?post = (Json200 5, snd ?post)" using post by (simp add: prod_eq_iff)
  note created = empty_description_is_null [THEN conjunct2, THEN conjunct2, THEN conjunct1,
      rule_format, OF conjI [OF fresh post']]
  have member: "?row \<in> set (tasks (db1\<lparr> tasks := [task1, ?row, task3, task4] \<rparr>))"
    by simp
  have matched: "task_matches credential_idAccount credential_idUser 2 ?row"
    by (simp add: task_matches_def update_row_def task2_def credential_idAccount_def
        credential_idUser_def)
  note updated = empty_description_is_null [THEN conjunct2, THEN conjunct2, THEN conjunct2,
      THEN conjunct1, rule_format, OF put, THEN conjunct2, rule_format, OF member matched]
  have old: "description task2 = Some ''draft''" by (simp add: task2_def)
  show ?thesis
    by (intro conjI fresh post created old put updated)
qed

end
